theory Spec2Isabelle
  imports Complex_Main
begin

section \<open>Character Pose Editor: a shallow embedding of \<open>src/App.tsx\<close>\<close>

text \<open>
  The program is a single React component file.  Its logic is
  \<^item> \<open>dataUrlToInfo\<close>, splitting a data URL into payload and media type;
  \<^item> \<open>handleInteractionMove\<close> of a \<open>DraggablePad\<close>, turning a pointer position into an
    offset clamped to the pad's disc;
  \<^item> \<open>generatePrompt\<close>, turning the three pad offsets into an instruction string;
  \<^item> \<open>handleReset\<close>, \<open>handleFileChange\<close> and \<open>generateImage\<close>, the state updates of the
    \<open>App\<close> component.

  A number is modelled by the real number it denotes.  The deadzone and the direction
  labels of the composer are decided over the reals.  Where a result depends on the
  rounding of binary64 arithmetic (the offset written by the pad controller, the intensity
  qualifier of the composer) the operations are the rounding ones of the subsection on
  binary64 arithmetic.  JavaScript strings are modelled as \<^typ>\<open>string\<close>.
\<close>

subsection \<open>Data\<close>

text \<open>\<open>type Point = { x: number; y: number }\<close>\<close>

record Point =
  point_x :: real
  point_y :: real

text \<open>
  The state of the \<open>App\<close> component, one field per \<open>useState\<close>: \<open>null\<close> is \<^const>\<open>None\<close>.
\<close>

record app_state =
  originalImage :: "string option"
  editedImage :: "string option"
  isLoading :: bool
  error :: "string option"
  gazeOffset :: Point
  headOffset :: Point
  bodyOffset :: Point

text \<open>The initial values given to \<open>useState\<close>.\<close>

definition initial_state :: app_state where
  "initial_state =
     \<lparr>originalImage = None, editedImage = None, isLoading = False, error = None,
      gazeOffset = \<lparr>point_x = 0, point_y = 0\<rparr>,
      headOffset = \<lparr>point_x = 0, point_y = 0\<rparr>,
      bodyOffset = \<lparr>point_x = 0, point_y = 0\<rparr>\<rparr>"

text \<open>
  An exception is a value: the constructor is the class thrown, the argument its \<open>message\<close>.
\<close>

datatype js_error = Error string | TypeError string

fun message :: "js_error \<Rightarrow> string" where
  "message (Error m) = m"
| "message (TypeError m) = m"

subsection \<open>JavaScript helpers\<close>

text \<open>\<open>Boolean(s)\<close> on a string: only the empty string is falsy.\<close>

definition truthy :: "string \<Rightarrow> bool" where
  "truthy s = (s \<noteq> [])"

text \<open>A nullable string in a condition (\<open>!originalImage\<close>): \<open>null\<close> and \<open>""\<close> are falsy.\<close>

definition truthy_opt :: "string option \<Rightarrow> bool" where
  "truthy_opt v = (case v of None \<Rightarrow> False | Some s \<Rightarrow> truthy s)"

text \<open>\<open>Array.prototype.join\<close> on an array of strings.\<close>

fun join :: "string \<Rightarrow> string list \<Rightarrow> string" where
  "join sep [] = []"
| "join sep [s] = s"
| "join sep (s # t # ts) = s @ sep @ join sep (t # ts)"

text \<open>
  \<open>String.prototype.split\<close> with a one-character separator: the pieces between the
  separators; a string without separator is its own single piece, also when it is empty.
\<close>

fun split :: "char \<Rightarrow> string \<Rightarrow> string list" where
  "split sep [] = [[]]"
| "split sep (c # cs) =
     (if c = sep then [] # split sep cs
      else (case split sep cs of [] \<Rightarrow> [[c]] | p # ps \<Rightarrow> (c # p) # ps))"

subsection \<open>Image transfer: \<open>dataUrlToInfo\<close>\<close>

text \<open>
  The regular expression \<open>/:(.*?);/\<close>.  The dot matches every character except a line
  terminator (of the characters of \<^typ>\<open>char\<close>: line feed and carriage return).
\<close>

definition line_terminator :: "char \<Rightarrow> bool" where
  "line_terminator c = (c = CHR 0x0A \<or> c = CHR 0x0D)"

text \<open>
  \<open>(.*?);\<close> from a fixed position: the group grows one character at a time and stops at
  the first semicolon; the result is the group, or \<^const>\<open>None\<close> when there is no match from
  here.
\<close>

fun lazy_group :: "string \<Rightarrow> string option" where
  "lazy_group [] = None"
| "lazy_group (c # cs) =
     (if c = CHR '';'' then Some []
      else if line_terminator c then None
      else map_option ((#) c) (lazy_group cs))"

text \<open>
  \<open>str.match(/:(.*?);/)?.[1]\<close>: group 1 of the leftmost match, \<^const>\<open>None\<close> when \<open>match\<close>
  returns \<open>null\<close>.
\<close>

fun match_group :: "string \<Rightarrow> string option" where
  "match_group [] = None"
| "match_group (c # cs) =
     (if c = CHR '':''
      then (case lazy_group cs of Some g \<Rightarrow> Some g | None \<Rightarrow> match_group cs)
      else match_group cs)"

text \<open>
  The returned object.  \<open>parts[1]\<close> is \<open>undefined\<close> when the array has a single element;
  \<open>undefined\<close> is \<^const>\<open>None\<close>.
\<close>

record info =
  base64Data :: "string option"
  mimeType :: string

text \<open>
  \<open>parts[0].match\<close> would throw a \<open>TypeError\<close> on an empty array; the branch is kept,
  with the message of V8.
\<close>

definition dataUrlToInfo :: "string \<Rightarrow> js_error + info" where
  "dataUrlToInfo dataUrl =
     (let parts = split CHR '','' dataUrl in
      case parts of
        [] \<Rightarrow> Inl (TypeError ''Cannot read properties of undefined (reading 'match')'')
      | p0 # rest \<Rightarrow>
          (let mimeType = (case match_group p0 of
                             None \<Rightarrow> ''application/octet-stream''
                           | Some g \<Rightarrow> if truthy g then g else ''application/octet-stream'');
               base64Data = (case rest of [] \<Rightarrow> None | p1 # _ \<Rightarrow> Some p1)
           in Inr \<lparr>base64Data = base64Data, mimeType = mimeType\<rparr>))"

text \<open>
  The encoded form, built by the template literal
  \<open>`data:${newImageMimeType};base64,${newImageDataBase64}`\<close> of \<open>generateImage\<close>.
\<close>

definition encodeDataUrl :: "string \<Rightarrow> string \<Rightarrow> string" where
  "encodeDataUrl newImageMimeType newImageDataBase64 =
     ''data:'' @ newImageMimeType @ '';base64,'' @ newImageDataBase64"

subsection \<open>Binary64 arithmetic\<close>

text \<open>
  A JavaScript number is an IEEE 754 binary64 value, and every arithmetic operation returns
  the exact result rounded to the nearest binary64 number, ties to the even significand.
  The finite binary64 numbers are the reals \<open>m \<times> 2\<^sup>e\<close> with an integer \<open>|m| < 2\<^sup>5\<^sup>3\<close> and
  \<open>e \<ge> -1074\<close>; around \<open>x\<close> they are spaced \<open>2\<^sup>e\<close> apart, with \<open>e = \<lfloor>log\<^sub>2 |x|\<rfloor> - 52\<close>, and
  \<open>e = -1074\<close> in the subnormal range.  Overflow to \<open>Infinity\<close> (results of magnitude
  \<open>2\<^sup>1\<^sup>0\<^sup>2\<^sup>4\<close> and more) is not modelled: the theorems bound their inputs.
\<close>

text \<open>Rounding a real to the nearest integer, a tie to the even one.\<close>

definition rne :: "real \<Rightarrow> int" where
  "rne t =
     (let f = \<lfloor>t\<rfloor>; r = t - of_int f in
      if r < 1 / 2 then f
      else if r > 1 / 2 then f + 1
      else if even f then f else f + 1)"

definition expo64 :: "real \<Rightarrow> int" where
  "expo64 x = max (\<lfloor>log 2 \<bar>x\<bar>\<rfloor> - 52) (- 1074)"

definition rnd64 :: "real \<Rightarrow> real" where
  "rnd64 x =
     (if x = 0 then 0
      else of_int (rne (x / 2 powr of_int (expo64 x))) * 2 powr of_int (expo64 x))"

text \<open>The operations \<open>+\<close>, \<open>-\<close>, \<open>*\<close>, \<open>/\<close> and \<open>Math.sqrt\<close> on numbers.\<close>

definition fl_add :: "real \<Rightarrow> real \<Rightarrow> real" where
  "fl_add a b = rnd64 (a + b)"

definition fl_sub :: "real \<Rightarrow> real \<Rightarrow> real" where
  "fl_sub a b = rnd64 (a - b)"

definition fl_mul :: "real \<Rightarrow> real \<Rightarrow> real" where
  "fl_mul a b = rnd64 (a * b)"

definition fl_div :: "real \<Rightarrow> real \<Rightarrow> real" where
  "fl_div a b = rnd64 (a / b)"

definition fl_sqrt :: "real \<Rightarrow> real" where
  "fl_sqrt a = rnd64 (sqrt a)"

subsection \<open>The pad controller: \<open>handleInteractionMove\<close>\<close>

text \<open>
  A mouse event carries \<open>clientX\<close> and \<open>clientY\<close>; a touch event carries the list
  \<open>touches\<close>, each touch with its \<open>clientX\<close> and \<open>clientY\<close>.
\<close>

datatype pointer_event = MouseEvent real real | TouchEvent "(real \<times> real) list"

text \<open>The result of \<open>getBoundingClientRect()\<close>.\<close>

record DOMRect =
  rect_left :: real
  rect_top :: real
  rect_width :: real
  rect_height :: real

text \<open>
  \<open>'touches' in e ? e.touches[0].clientX : e.clientX\<close>, and the same for \<open>clientY\<close>:
  \<^const>\<open>None\<close> when \<open>e.touches[0]\<close> is \<open>undefined\<close>, where the source throws.
\<close>

fun client :: "pointer_event \<Rightarrow> (real \<times> real) option" where
  "client (MouseEvent clientX clientY) = Some (clientX, clientY)"
| "client (TouchEvent []) = None"
| "client (TouchEvent (t # ts)) = Some t"

text \<open>
  What a call of the handler does: nothing (the early return), a throw, or one call of
  \<open>setOffset\<close>.  The only division of the source is by \<open>distance\<close>; where \<open>distance\<close> is
  zero in the clamping branch the quotient \<open>0 / 0\<close> is \<open>NaN\<close> and the offset written is not
  a pair of numbers: this is \<open>SetOffsetNaN\<close>.  Every operation is the rounding one.
\<close>

datatype move_result = Ignored | Thrown js_error | SetOffset Point | SetOffsetNaN

text \<open>
  The pad's own state is \<open>isDragging\<close>; \<open>padRef.current\<close> is modelled by the rectangle of
  the element, \<^const>\<open>None\<close> when the ref is \<open>null\<close>.
\<close>

definition handleInteractionMove :: "bool \<Rightarrow> DOMRect option \<Rightarrow> pointer_event \<Rightarrow> move_result" where
  "handleInteractionMove isDragging padRef e =
     (case padRef of
        None \<Rightarrow> Ignored
      | Some rect \<Rightarrow>
          if \<not> isDragging then Ignored
          else
            (case client e of
               None \<Rightarrow> Thrown (TypeError ''Cannot read properties of undefined (reading 'clientX')'')
             | Some (clientX, clientY) \<Rightarrow>
                 (let centerX = fl_add (rect_left rect) (fl_div (rect_width rect) 2);
                      centerY = fl_add (rect_top rect) (fl_div (rect_height rect) 2);
                      dx = fl_sub clientX centerX;
                      dy = fl_sub clientY centerY;
                      radius = fl_div (rect_width rect) 2;
                      distance = fl_sqrt (fl_add (fl_mul dx dx) (fl_mul dy dy))
                  in if distance > radius
                     then (if distance = 0 then SetOffsetNaN
                           else SetOffset \<lparr>point_x = fl_mul (fl_div dx distance) radius,
                                           point_y = fl_mul (fl_div dy distance) radius\<rparr>)
                     else SetOffset \<lparr>point_x = dx, point_y = dy\<rparr>)))"

subsection \<open>The prompt composer: \<open>generatePrompt\<close>\<close>

text \<open>\<open>const threshold = 15;\<close>\<close>

definition threshold :: real where
  "threshold = 15"

text \<open>
  The length of an offset: the real number that \<open>Math.sqrt(o.x ** 2 + o.y ** 2)\<close>, computed
  for each of the three offsets, returns rounded (the rounded value is \<open>distance64\<close> below).
\<close>

definition distance :: "Point \<Rightarrow> real" where
  "distance p = sqrt ((point_x p)\<^sup>2 + (point_y p)\<^sup>2)"

text \<open>
  The two ternaries and the \<open>filter(Boolean).join(' and to the ')\<close> line, which the source
  repeats verbatim for head, body and gaze.
\<close>

definition vertical :: "Point \<Rightarrow> string" where
  "vertical p = (if point_y p < - threshold then ''up''
                 else (if point_y p > threshold then ''down'' else ''''))"

definition horizontal :: "Point \<Rightarrow> string" where
  "horizontal p = (if point_x p < - threshold then ''left''
                   else (if point_x p > threshold then ''right'' else ''''))"

definition direction :: "Point \<Rightarrow> string" where
  "direction p = join '' and to the '' (filter truthy [vertical p, horizontal p])"

text \<open>
  The head block: what it pushes onto \<open>promptParts\<close> (nothing or one phrase).  The three
  blocks are written over the reals here; the head and body blocks are written again with
  the operations of binary64 in the next subsection.
\<close>

definition headParts :: "Point \<Rightarrow> string list" where
  "headParts ho =
     (let headDistance = distance ho in
      if headDistance > threshold then
        (let headDirection = direction ho;
             padRadius = (64 :: real);
             tiltAmount = (if headDistance > padRadius * 0.75 then ''significantly ''
                           else if headDistance < padRadius * 0.4 then ''slightly ''
                           else '''')
         in if truthy headDirection
            then [''Tilt the main subject's head '' @ tiltAmount @ headDirection @ ''.'']
            else [])
      else [])"

text \<open>The body block.\<close>

definition bodyParts :: "Point \<Rightarrow> string list" where
  "bodyParts bo =
     (let bodyDistance = distance bo in
      if bodyDistance > threshold then
        (let bodyDirection = direction bo;
             padRadius = (80 :: real);
             turnAmount = (if bodyDistance > padRadius * 0.75 then ''significantly ''
                           else if bodyDistance < padRadius * 0.4 then ''slightly ''
                           else '''')
         in if truthy bodyDirection
            then [''Turn the main subject's body '' @ turnAmount @ ''to face ''
                    @ bodyDirection @ ''.'']
            else [])
      else [])"

text \<open>The gaze block.\<close>

definition gazeParts :: "Point \<Rightarrow> string list" where
  "gazeParts go =
     (let gazeDistance = distance go in
      if gazeDistance > threshold then
        (let gazeDirection = direction go
         in if truthy gazeDirection
            then [''Make the subject look '' @ gazeDirection @ ''.'']
            else [])
      else [])"

definition fallback :: string where
  "fallback =
     ''Make a high-quality, photorealistic image of the subject, keeping the style the same.''"

text \<open>
  \<open>generatePrompt\<close> reads the three offsets of the component state; the pushes happen in
  the order head, body, gaze.
\<close>

definition generatePrompt :: "app_state \<Rightarrow> string" where
  "generatePrompt s =
     (let promptParts = [] @ headParts (headOffset s) @ bodyParts (bodyOffset s)
                          @ gazeParts (gazeOffset s)
      in if length promptParts = 0 then fallback else join '' '' promptParts)"

subsection \<open>The head and body blocks in binary64\<close>

text \<open>
  The qualifier of a head or body phrase is chosen by comparing the value that
  \<open>Math.sqrt(o.x ** 2 + o.y ** 2)\<close> returns, a rounded number, with the products
  \<open>padRadius * 0.75\<close> and \<open>padRadius * 0.4\<close>, rounded too.  Here the two blocks are written
  with the operations of binary64: \<open>x ** 2\<close> is the rounded product \<open>x * x\<close>, and a decimal
  literal is the binary64 number nearest to it.
\<close>

definition distance64 :: "Point \<Rightarrow> real" where
  "distance64 p =
     fl_sqrt (fl_add (fl_mul (point_x p) (point_x p)) (fl_mul (point_y p) (point_y p)))"

definition headParts64 :: "Point \<Rightarrow> string list" where
  "headParts64 ho =
     (let headDistance = distance64 ho in
      if headDistance > threshold then
        (let headDirection = direction ho;
             padRadius = (64 :: real);
             tiltAmount = (if headDistance > fl_mul padRadius (rnd64 0.75)
                           then ''significantly ''
                           else if headDistance < fl_mul padRadius (rnd64 0.4)
                           then ''slightly ''
                           else '''')
         in if truthy headDirection
            then [''Tilt the main subject's head '' @ tiltAmount @ headDirection @ ''.'']
            else [])
      else [])"

definition bodyParts64 :: "Point \<Rightarrow> string list" where
  "bodyParts64 bo =
     (let bodyDistance = distance64 bo in
      if bodyDistance > threshold then
        (let bodyDirection = direction bo;
             padRadius = (80 :: real);
             turnAmount = (if bodyDistance > fl_mul padRadius (rnd64 0.75)
                           then ''significantly ''
                           else if bodyDistance < fl_mul padRadius (rnd64 0.4)
                           then ''slightly ''
                           else '''')
         in if truthy bodyDirection
            then [''Turn the main subject's body '' @ turnAmount @ ''to face ''
                    @ bodyDirection @ ''.'']
            else [])
      else [])"

subsection \<open>The component's handlers\<close>

text \<open>\<open>handleReset\<close>: four setter calls.\<close>

definition handleReset :: "app_state \<Rightarrow> app_state" where
  "handleReset s =
     s\<lparr>gazeOffset := \<lparr>point_x = 0, point_y = 0\<rparr>,
       headOffset := \<lparr>point_x = 0, point_y = 0\<rparr>,
       bodyOffset := \<lparr>point_x = 0, point_y = 0\<rparr>,
       error := None\<rparr>"

text \<open>
  The \<open>onloadend\<close> callback installed by \<open>handleFileChange\<close>; its argument is
  \<open>reader.result\<close>, which is \<open>null\<close> when the read failed.
\<close>

definition onloadend :: "string option \<Rightarrow> app_state \<Rightarrow> app_state" where
  "onloadend result s = handleReset (s\<lparr>originalImage := result, editedImage := None\<rparr>)"

text \<open>
  The call sent to the service: the \<open>inlineData\<close> part (\<open>data\<close>, \<open>mimeType\<close>) and the
  \<open>text\<close> part.
\<close>

record request =
  req_data :: "string option"
  req_mimeType :: string
  req_text :: string

text \<open>
  What the awaited call gives back: a rejection with its \<open>message\<close>, or a response.  Of a
  response the code reads \<open>candidates?.[0]?.content?.parts\<close> (\<^const>\<open>None\<close> when a link of
  the chain is missing) and of each part its \<open>inlineData\<close>, a pair of \<open>data\<close> and
  \<open>mimeType\<close>.
\<close>

datatype response = Rejected string | Resolved "(string \<times> string) option list option"

text \<open>
  \<open>generateImage\<close> is an \<open>async\<close> function with one \<open>await\<close>.  \<open>generateImage_begin\<close> is
  the part that runs when the function is called, up to the \<open>await\<close>: it returns the state
  and the request sent, if one is sent.  Where the \<open>try\<close> block throws before the call,
  the \<open>catch\<close> and \<open>finally\<close> blocks run at once.  \<open>API_KEY\<close> is \<open>process.env.API_KEY\<close>.
\<close>

definition catch_finally :: "js_error \<Rightarrow> app_state \<Rightarrow> app_state" where
  "catch_finally e s =
     s\<lparr>error := Some (if truthy (message e) then message e
                       else ''An unexpected error occurred.''),
       isLoading := False\<rparr>"

definition generateImage_begin :: "string option \<Rightarrow> app_state \<Rightarrow> app_state \<times> request option" where
  "generateImage_begin API_KEY s =
     (case originalImage s of
        None \<Rightarrow> (s\<lparr>error := Some ''Please upload an image first.''\<rparr>, None)
      | Some img \<Rightarrow>
          if \<not> truthy img then (s\<lparr>error := Some ''Please upload an image first.''\<rparr>, None)
          else
            (let s1 = s\<lparr>isLoading := True, error := None, editedImage := None\<rparr> in
             if \<not> truthy_opt API_KEY
             then (catch_finally (Error ''API_KEY is not set in environment variables.'') s1,
                   None)
             else
               (case dataUrlToInfo img of
                  Inl e \<Rightarrow> (catch_finally e s1, None)
                | Inr i \<Rightarrow>
                    (s1, Some \<lparr>req_data = base64Data i, req_mimeType = mimeType i,
                               req_text = generatePrompt s\<rparr>))))"

text \<open>
  \<open>generateImage_end\<close> is the rest of the function, run when the awaited call settles, on
  the state of that moment.
\<close>

definition generateImage_end :: "response \<Rightarrow> app_state \<Rightarrow> app_state" where
  "generateImage_end r s =
     (case r of
        Rejected m \<Rightarrow> catch_finally (Error m) s
      | Resolved parts \<Rightarrow>
          (case find (\<lambda>part. part \<noteq> None) (case parts of None \<Rightarrow> [] | Some ps \<Rightarrow> ps) of
             Some (Some (newImageDataBase64, newImageMimeType)) \<Rightarrow>
               s\<lparr>editedImage := Some (encodeDataUrl newImageMimeType newImageDataBase64),
                 isLoading := False\<rparr>
           | _ \<Rightarrow>
               catch_finally
                 (Error ''No image was generated. The response may have been blocked.'') s))"

subsection \<open>The wording of the specification\<close>

text \<open>
  The intensity rule as the specification words it: ``distance > 0.75 \<times> radius: qualifier
  significantly; distance < 0.40 \<times> radius: qualifier slightly; otherwise no qualifier''.
  In a phrase a qualifier is followed by a space.
\<close>

definition qualifier_spec :: "real \<Rightarrow> real \<Rightarrow> string" where
  "qualifier_spec radius d =
     (if d > 0.75 * radius then ''significantly''
      else if d < 0.40 * radius then ''slightly''
      else '''')"

definition spaced :: "string \<Rightarrow> string" where
  "spaced q = (if q = [] then [] else q @ '' '')"

text \<open>The gaze template ``Make the subject look {direction}.'' at the eight directions.\<close>

definition gaze_sentences :: "string list" where
  "gaze_sentences =
     [''Make the subject look up.'',
      ''Make the subject look down.'',
      ''Make the subject look left.'',
      ''Make the subject look right.'',
      ''Make the subject look up and to the left.'',
      ''Make the subject look up and to the right.'',
      ''Make the subject look down and to the left.'',
      ''Make the subject look down and to the right.'']"

section \<open>Properties\<close>

subsection \<open>Rounding\<close>

lemma rne_error: "\<bar>of_int (rne t) - t\<bar> \<le> 1 / 2"
proof -
  have "of_int \<lfloor>t\<rfloor> \<le> t" and "t < of_int \<lfloor>t\<rfloor> + 1"
    by linarith+
  then show ?thesis
    by (auto simp add: rne_def Let_def)
qed

lemma rne_unique:
  assumes "\<bar>t - of_int m\<bar> < 1 / 2"
  shows "rne t = m"
proof (cases "of_int m \<le> t")
  case True
  with assms have "\<lfloor>t\<rfloor> = m"
    by (intro floor_unique) linarith+
  with assms True show ?thesis
    by (simp add: rne_def Let_def)
next
  case False
  with assms have f: "\<lfloor>t\<rfloor> = m - 1"
    by (intro floor_unique) (simp, linarith+)
  with assms False show ?thesis
    by (simp add: rne_def Let_def)
qed

lemma rne_nonneg: "0 \<le> t \<Longrightarrow> 0 \<le> rne t"
  by (auto simp add: rne_def Let_def)

lemma expo64_ge: "- 1074 \<le> expo64 x"
  by (simp add: expo64_def)

lemma expo64_eqI:
  assumes "- 1074 \<le> e" and "2 powr of_int (e + 52) \<le> \<bar>x\<bar>" and "\<bar>x\<bar> < 2 powr of_int (e + 53)"
  shows "expo64 x = e"
proof -
  have "(0::real) < 2 powr of_int (e + 52)"
    by simp
  with assms(2) have pos: "0 < \<bar>x\<bar>"
    by linarith
  have "\<lfloor>log 2 \<bar>x\<bar>\<rfloor> = e + 52"
    using assms(2,3) by (subst floor_log_eq_powr_iff [OF pos]) (simp_all add: add.commute)
  with assms(1) show ?thesis
    by (simp add: expo64_def)
qed

text \<open>
  The rule that evaluates \<open>rnd64\<close>: a real \<open>x\<close> in the binade of spacing \<open>q = 2\<^sup>e\<close> and
  closer than \<open>q / 2\<close> to the multiple \<open>m \<times> q\<close> rounds to \<open>m \<times> q\<close>.
\<close>

lemma rnd64_eqI:
  assumes "- 1074 \<le> e" and "q = 2 powr of_int e"
    and "2 powr of_int (e + 52) \<le> \<bar>x\<bar>" and "\<bar>x\<bar> < 2 powr of_int (e + 53)"
    and "\<bar>x - of_int m * q\<bar> < q / 2"
  shows "rnd64 x = of_int m * q"
proof -
  have e: "expo64 x = e"
    using assms(1,3,4) by (rule expo64_eqI)
  have q: "0 < q"
    by (simp add: assms(2))
  have "(0::real) < 2 powr of_int (e + 52)"
    by simp
  with assms(3) have nz: "x \<noteq> 0"
    by auto
  have "\<bar>x / q - of_int m\<bar> = \<bar>x - of_int m * q\<bar> / q"
    using q by (simp add: field_simps abs_mult [symmetric] del: abs_mult)
  also have "\<dots> < 1 / 2"
    using assms(5) q by (simp add: field_simps)
  finally have "rne (x / q) = m"
    by (rule rne_unique)
  with e nz show ?thesis
    by (simp add: rnd64_def assms(2))
qed

lemma rnd64_error_quantum:
  "\<bar>rnd64 x - x\<bar> \<le> 2 powr of_int (expo64 x) / 2"
proof (cases "x = 0")
  case True
  then show ?thesis by (simp add: rnd64_def)
next
  case False
  let ?q = "(2::real) powr of_int (expo64 x)"
  have q: "0 < ?q" by simp
  have "\<bar>rnd64 x - x\<bar> = \<bar>of_int (rne (x / ?q)) - x / ?q\<bar> * ?q"
    using False q by (simp add: rnd64_def abs_mult [symmetric] field_simps del: abs_mult)
  also have "\<dots> \<le> (1 / 2) * ?q"
    using rne_error [of "x / ?q"] q by (intro mult_right_mono) simp_all
  finally show ?thesis by simp
qed

text \<open>
  The standard error model: a relative error of at most \<open>2\<^sup>-\<^sup>5\<^sup>3\<close>, or an absolute error of
  at most \<open>2\<^sup>-\<^sup>1\<^sup>0\<^sup>7\<^sup>5\<close> in the subnormal range.
\<close>

lemma rnd64_error:
  "\<bar>rnd64 x - x\<bar> \<le> \<bar>x\<bar> / 2 ^ 53 + 1 / 2 ^ 1075"
proof (cases "x = 0 \<or> \<lfloor>log 2 \<bar>x\<bar>\<rfloor> - 52 \<le> - 1074")
  case True
  have "rnd64 x = x" if "x = 0"
    using that by (simp add: rnd64_def)
  moreover have "expo64 x = - 1074" if "\<lfloor>log 2 \<bar>x\<bar>\<rfloor> - 52 \<le> - 1074"
    using that by (simp add: expo64_def)
  ultimately have "\<bar>rnd64 x - x\<bar> \<le> 2 powr (- 1074) / 2"
    using True rnd64_error_quantum [of x] by auto
  also have "\<dots> = 1 / 2 ^ 1075"
    by (simp add: powr_neg_numeral)
  finally have "\<bar>rnd64 x - x\<bar> \<le> 1 / 2 ^ 1075" .
  moreover have "0 \<le> \<bar>x\<bar> / 2 ^ 53"
    by simp
  ultimately show ?thesis
    by linarith
next
  case False
  then have e: "expo64 x = \<lfloor>log 2 \<bar>x\<bar>\<rfloor> - 52"
    by (simp add: expo64_def)
  have nz: "x \<noteq> 0"
    using False by auto
  then have pos: "0 < \<bar>x\<bar>" by simp
  have "(2::real) powr of_int \<lfloor>log 2 \<bar>x\<bar>\<rfloor> \<le> \<bar>x\<bar>"
    using floor_log_eq_powr_iff [OF pos, of 2 "\<lfloor>log 2 \<bar>x\<bar>\<rfloor>"] by simp
  moreover have "(2::real) powr of_int (expo64 x)
      = 2 powr of_int \<lfloor>log 2 \<bar>x\<bar>\<rfloor> / 2 ^ 52"
    by (simp add: e powr_diff)
  ultimately have "(2::real) powr of_int (expo64 x) \<le> \<bar>x\<bar> / 2 ^ 52"
    by (simp add: divide_right_mono)
  with rnd64_error_quantum [of x] have "\<bar>rnd64 x - x\<bar> \<le> \<bar>x\<bar> / 2 ^ 53"
    by simp
  moreover have "(0::real) \<le> 1 / 2 ^ 1075"
    by simp
  ultimately show ?thesis
    by linarith
qed

lemma rnd64_nonneg: "0 \<le> x \<Longrightarrow> 0 \<le> rnd64 x"
  by (simp add: rnd64_def rne_nonneg)

lemma rnd64_zero: "rnd64 0 = 0"
  by (simp add: rnd64_def)


lemma rnd64_exact:
  assumes "- 1074 \<le> e" and "q = 2 powr of_int e" and "x = of_int m * q"
    and "2 ^ 52 \<le> \<bar>m\<bar>" and "\<bar>m\<bar> < 2 ^ 53"
  shows "rnd64 x = x"
proof -
  have q: "0 < q"
    by (simp add: assms(2))
  have ax: "\<bar>x\<bar> = of_int \<bar>m\<bar> * q"
    using q by (simp add: assms(3) abs_mult)
  have lo: "2 powr of_int (e + 52) = 2 ^ 52 * q"
    by (simp add: assms(2) powr_add)
  have hi: "2 powr of_int (e + 53) = 2 ^ 53 * q"
    by (simp add: assms(2) powr_add)
  have "(2::real) ^ 52 \<le> of_int \<bar>m\<bar>"
    using assms(4) by (metis of_int_le_iff of_int_numeral of_int_power)
  then have 1: "2 powr of_int (e + 52) \<le> \<bar>x\<bar>"
    unfolding lo ax using q by (intro mult_right_mono) simp_all
  have "of_int \<bar>m\<bar> < (2::real) ^ 53"
    using assms(5) by (metis of_int_less_iff of_int_numeral of_int_power)
  then have 2: "\<bar>x\<bar> < 2 powr of_int (e + 53)"
    unfolding hi ax using q by (intro mult_strict_right_mono) simp_all
  have 3: "\<bar>x - of_int m * q\<bar> < q / 2"
    using q by (simp add: assms(3))
  from assms(1,2) 1 2 3 have "rnd64 x = of_int m * q"
    by (rule rnd64_eqI)
  then show ?thesis
    by (simp add: assms(3))
qed

lemma rnd64_sqrt_eqI:
  assumes "- 1074 \<le> e" and "q = 2 powr of_int e"
    and "(2 powr of_int (e + 52))\<^sup>2 \<le> a" and "a < (2 powr of_int (e + 53))\<^sup>2"
    and "0 \<le> of_int m * q - q / 2"
    and "(of_int m * q - q / 2)\<^sup>2 < a" and "a < (of_int m * q + q / 2)\<^sup>2"
  shows "rnd64 (sqrt a) = of_int m * q"
proof -
  have "0 \<le> ((2::real) powr of_int (e + 52))\<^sup>2"
    by simp
  with assms(3) have a: "0 \<le> a"
    by linarith
  have q: "0 < q"
    by (simp add: assms(2))
  have 1: "2 powr of_int (e + 52) \<le> \<bar>sqrt a\<bar>"
    using assms(3) a by (simp add: real_le_rsqrt)
  have 2: "\<bar>sqrt a\<bar> < 2 powr of_int (e + 53)"
    using assms(4) a by (simp add: real_less_lsqrt)
  have "of_int m * q - q / 2 < sqrt a"
    using assms(6) by (rule real_less_rsqrt)
  moreover have "sqrt a < of_int m * q + q / 2"
    using assms(5,7) q by (intro real_less_lsqrt) simp_all
  ultimately have 3: "\<bar>sqrt a - of_int m * q\<bar> < q / 2"
    by linarith
  from assms(1,2) 1 2 3 show ?thesis
    by (rule rnd64_eqI)
qed

subsection \<open>Error analysis of the computed distance\<close>

text \<open>
  The computed value \<open>D\<close> of \<open>sqrt (X + Y)\<close>, from rounded \<open>X\<close> and \<open>Y\<close>, a rounded sum and a
  rounded square root, each with relative error \<open>u\<close> and absolute error \<open>h\<close>.
\<close>

lemma computed_sqrt_bounds:
  fixes X Y a b s D u h N :: real
  assumes X: "0 \<le> X" and Y: "0 \<le> Y" and N: "0 \<le> N" "N\<^sup>2 = X + Y"
    and a: "\<bar>a - X\<bar> \<le> u * X + h" and b: "\<bar>b - Y\<bar> \<le> u * Y + h"
    and s: "\<bar>s - (a + b)\<bar> \<le> u * \<bar>a + b\<bar> + h"
    and D: "\<bar>D - sqrt s\<bar> \<le> u * \<bar>sqrt s\<bar> + h"
    and u: "0 \<le> u" "u \<le> 1 / 8"
    and h: "0 \<le> h" "4 * h \<le> u * N\<^sup>2" "4 * h \<le> u * N"
  shows "N * (1 - 5 * u) \<le> D" and "D \<le> N * (1 + 5 * u)"
proof -
  define M where "M = N\<^sup>2"
  define P where "P = u * M"
  define Q where "Q = u * P"
  have M: "0 \<le> M" "M = X + Y"
    by (simp_all add: M_def N(2) [symmetric])
  have P: "0 \<le> P" "P \<le> M / 8" "P = u * X + u * Y"
  proof -
    show "0 \<le> P"
      unfolding P_def using u(1) M(1) by (rule mult_nonneg_nonneg)
    show "P \<le> M / 8"
      unfolding P_def using mult_right_mono [OF u(2) M(1)] by simp
    show "P = u * X + u * Y"
      by (simp add: P_def M(2) distrib_left)
  qed
  have Q: "0 \<le> Q" "Q \<le> P / 8"
  proof -
    show "0 \<le> Q"
      unfolding Q_def using u(1) P(1) by (rule mult_nonneg_nonneg)
    show "Q \<le> P / 8"
      unfolding Q_def using mult_right_mono [OF u(2) P(1)] by simp
  qed
  have h2: "4 * h \<le> P"
    using h(2) by (simp add: P_def M_def)
  have ab_hi: "a + b \<le> M + 3 / 2 * P" and ab_lo: "M - 3 / 2 * P \<le> a + b"
    using a b h2 P(3) M(2) by linarith+
  have ab0: "0 \<le> a + b"
    using ab_lo P(2) M(1) by linarith
  have "u * (a + b) \<le> u * (M + 3 / 2 * P)"
    using ab_hi u(1) by (rule mult_left_mono)
  then have uab: "u * (a + b) \<le> P + 3 / 2 * Q"
    by (simp add: P_def Q_def distrib_left)
  have s_hi: "s \<le> M + 3 * P" and s_lo: "M - 3 * P \<le> s"
    using s ab0 uab ab_hi ab_lo h2 Q(2) P(1) by linarith+
  have s0: "0 \<le> s"
    using s_lo P(2) M(1) by linarith
  have sqN: "(N * (1 + 3 * u))\<^sup>2 = M + 6 * P + 9 * Q"
    by (simp add: M_def P_def Q_def power2_eq_square algebra_simps)
  have sqN': "(N * (1 - 3 * u))\<^sup>2 = M - 6 * P + 9 * Q"
    by (simp add: M_def P_def Q_def power2_eq_square algebra_simps)
  have u3: "0 \<le> 1 - 3 * u"
    using u by simp
  have S_hi: "sqrt s \<le> N * (1 + 3 * u)"
  proof (rule real_le_lsqrt)
    show "0 \<le> N * (1 + 3 * u)"
      using N(1) u by simp
    show "s \<le> (N * (1 + 3 * u))\<^sup>2"
      unfolding sqN using s_hi P(1) Q(1) by linarith
  qed
  have S_lo: "N * (1 - 3 * u) \<le> sqrt s"
  proof (rule real_le_rsqrt)
    show "(N * (1 - 3 * u))\<^sup>2 \<le> s"
      unfolding sqN' using s_lo P(1) Q(2) by linarith
  qed
  define R where "R = u * N"
  have R0: "0 \<le> R"
    unfolding R_def using u(1) N(1) by (rule mult_nonneg_nonneg)
  have R: "0 \<le> R" "u * R \<le> R / 8"
    using R0 mult_right_mono [OF u(2) R0] by simp_all
  have S0: "0 \<le> sqrt s"
    using s0 by simp
  have "u * sqrt s \<le> u * (N * (1 + 3 * u))"
    using S_hi u(1) by (rule mult_left_mono)
  then have uS: "u * sqrt s \<le> R + 3 * (u * R)"
    by (simp add: R_def algebra_simps)
  have h3: "4 * h \<le> R"
    using h(3) by (simp add: R_def)
  have S_hi': "sqrt s \<le> N + 3 * R" and S_lo': "N - 3 * R \<le> sqrt s"
    using S_hi S_lo by (simp_all add: R_def algebra_simps)
  have "N - 5 * R \<le> D" and "D \<le> N + 5 * R"
    using D S0 uS S_hi' S_lo' h3 R by linarith+
  then show "N * (1 - 5 * u) \<le> D" and "D \<le> N * (1 + 5 * u)"
    by (simp_all add: R_def algebra_simps)
qed

text \<open>A crude bound for the case of a short vector.\<close>

lemma computed_sqrt_small:
  fixes X Y a b s D u h N t :: real
  assumes N: "N\<^sup>2 = X + Y" "N \<le> t" "0 \<le> N"
    and X: "0 \<le> X" and Y: "0 \<le> Y" and a0: "0 \<le> a" and b0: "0 \<le> b"
    and s_nonneg: "0 \<le> s"
    and a: "\<bar>a - X\<bar> \<le> u * X + h" and b: "\<bar>b - Y\<bar> \<le> u * Y + h"
    and s: "\<bar>s - (a + b)\<bar> \<le> u * \<bar>a + b\<bar> + h"
    and D: "\<bar>D - sqrt s\<bar> \<le> u * \<bar>sqrt s\<bar> + h"
    and u: "0 \<le> u" "u \<le> 1 / 8"
    and h: "0 \<le> h" "64 * h \<le> t\<^sup>2" "64 * h \<le> t"
  shows "D \<le> 3 / 2 * t"
proof -
  define M where "M = N\<^sup>2"
  have t: "0 \<le> t"
    using N(2,3) by simp
  have M: "0 \<le> M" "M = X + Y" "M \<le> t\<^sup>2"
  proof -
    show "0 \<le> M" by (simp add: M_def)
    show "M = X + Y" by (simp add: M_def N(1))
    show "M \<le> t\<^sup>2" unfolding M_def using N(2,3) by (rule power_mono)
  qed
  have "u * M \<le> 1 / 8 * M"
    using u(2) M(1) by (rule mult_right_mono)
  moreover have "u * M = u * X + u * Y"
    by (simp add: M(2) distrib_left)
  ultimately have ab: "a + b \<le> 37 / 32 * t\<^sup>2"
    using a b M(2,3) h(2) by linarith
  define A where "A = a + b"
  define U where "U = u * A"
  have A: "0 \<le> A" "A \<le> 37 / 32 * t\<^sup>2"
    using a0 b0 ab by (simp_all add: A_def)
  have U: "U \<le> A / 8"
    unfolding U_def using mult_right_mono [OF u(2) A(1)] by simp
  have "\<bar>s - A\<bar> \<le> U + h"
    using s A(1) by (simp add: A_def [symmetric] U_def)
  then have s_hi: "s \<le> 337 / 256 * t\<^sup>2"
    using A U h(2) by linarith
  have s0: "0 \<le> sqrt s" "\<bar>sqrt s\<bar> = sqrt s"
    using s_nonneg by simp_all
  have S: "sqrt s \<le> 23 / 20 * t"
  proof (rule real_le_lsqrt)
    show "0 \<le> 23 / 20 * t"
      using t by simp
    have "(23 / 20 * t)\<^sup>2 = 529 / 400 * t\<^sup>2"
      by (simp add: power2_eq_square)
    moreover have "0 \<le> t\<^sup>2"
      by simp
    ultimately show "s \<le> (23 / 20 * t)\<^sup>2"
      using s_hi by linarith
  qed
  have "u * sqrt s \<le> 1 / 8 * sqrt s"
    using u(2) s0(1) by (rule mult_right_mono)
  with D [unfolded s0(2)] s0(1) S h(3) show ?thesis
    by linarith
qed

text \<open>
  A coordinate of the clamped offset: the rounded quotient \<open>q\<close> of \<open>d / D\<close>, and the rounded
  product \<open>p\<close> of \<open>q * r\<close>.
\<close>

lemma scaled_coordinate_error:
  fixes d D q p r u h N :: real
  assumes d: "\<bar>d\<bar> \<le> N" and DN: "N * (1 - 5 * u) \<le> D" and D: "0 < D" and r: "0 < r"
    and q: "\<bar>q - d / D\<bar> \<le> u * \<bar>d / D\<bar> + h"
    and p: "\<bar>p - q * r\<bar> \<le> u * \<bar>q * r\<bar> + h"
    and u: "0 \<le> u" "u \<le> 1 / 64"
    and h: "0 \<le> h" "4 * h \<le> u * r" "4 * h \<le> u"
  shows "\<bar>p - d / D * r\<bar> \<le> 3 * (u * r)"
proof -
  define t where "t = d / D"
  have N0: "0 \<le> N"
    using d by linarith
  have "N \<le> D * (1 + 6 * u)"
  proof -
    have "u * u \<le> 1 / 64 * u"
      using u by (intro mult_right_mono) simp_all
    then have "1 \<le> (1 - 5 * u) * (1 + 6 * u)"
      using u by (simp add: algebra_simps)
    then have "N * 1 \<le> N * ((1 - 5 * u) * (1 + 6 * u))"
      using N0 by (rule mult_left_mono)
    also have "\<dots> = N * (1 - 5 * u) * (1 + 6 * u)"
      by simp
    also have "\<dots> \<le> D * (1 + 6 * u)"
      using DN u by (intro mult_right_mono) simp_all
    finally show ?thesis by simp
  qed
  then have "\<bar>d\<bar> \<le> D * (1 + 6 * u)"
    using d by linarith
  then have "\<bar>t\<bar> \<le> 1 + 6 * u"
    using D by (simp add: t_def field_simps)
  then have t: "\<bar>t\<bar> \<le> 11 / 10"
    using u by linarith
  have ut: "u * \<bar>t\<bar> \<le> u * (11 / 10)"
    using t u(1) by (rule mult_left_mono)
  have qt: "\<bar>q - t\<bar> \<le> 11 / 10 * u + h"
    using q [folded t_def] ut by linarith
  then have q_abs: "\<bar>q\<bar> \<le> 6 / 5"
    using t u h by linarith
  define w where "w = u * r"
  have w: "0 \<le> w"
    unfolding w_def using u(1) r by simp
  have "u * \<bar>q * r\<bar> = \<bar>q\<bar> * w"
    using r by (simp add: abs_mult w_def)
  also have "\<dots> \<le> 6 / 5 * w"
    using q_abs w by (rule mult_right_mono)
  finally have pq: "\<bar>p - q * r\<bar> \<le> 6 / 5 * w + h"
    using p by linarith
  have "\<bar>q * r - t * r\<bar> = \<bar>q - t\<bar> * r"
    using r by (simp add: abs_mult left_diff_distrib [symmetric])
  also have "\<dots> \<le> (11 / 10 * u + h) * r"
    using qt r by (intro mult_right_mono) simp_all
  also have "\<dots> = 11 / 10 * w + h * r"
    by (simp add: w_def algebra_simps)
  finally have qr: "\<bar>q * r - t * r\<bar> \<le> 11 / 10 * w + h * r" .
  have "h * r \<le> u / 4 * r"
    using h(3) r by (intro mult_right_mono) simp_all
  then have hr: "h * r \<le> w / 4"
    by (simp add: w_def)
  have "\<bar>p - t * r\<bar> \<le> \<bar>p - q * r\<bar> + \<bar>q * r - t * r\<bar>"
    by linarith
  with pq qr hr h(2) show ?thesis
    unfolding t_def [symmetric] w_def [symmetric] by linarith
qed

text \<open>The error model at the constants of binary64.\<close>

lemma fl_mul_self_error:
  "\<bar>fl_mul d d - d\<^sup>2\<bar> \<le> 1 / 2 ^ 53 * d\<^sup>2 + 1 / 2 ^ 1075"
  using rnd64_error [of "d * d"] by (simp add: fl_mul_def power2_eq_square abs_mult)

lemma fl_mul_self_nonneg: "0 \<le> fl_mul d d"
  by (simp add: fl_mul_def rnd64_nonneg)

lemma fl_add_error: "\<bar>fl_add a b - (a + b)\<bar> \<le> 1 / 2 ^ 53 * \<bar>a + b\<bar> + 1 / 2 ^ 1075"
  using rnd64_error [of "a + b"] by (simp add: fl_add_def)

lemma fl_sqrt_error: "\<bar>fl_sqrt s - sqrt s\<bar> \<le> 1 / 2 ^ 53 * \<bar>sqrt s\<bar> + 1 / 2 ^ 1075"
  using rnd64_error [of "sqrt s"] by (simp add: fl_sqrt_def)

lemma fl_div_error: "\<bar>fl_div a b - a / b\<bar> \<le> 1 / 2 ^ 53 * \<bar>a / b\<bar> + 1 / 2 ^ 1075"
  using rnd64_error [of "a / b"] by (simp add: fl_div_def)

lemma fl_mul_error: "\<bar>fl_mul a b - a * b\<bar> \<le> 1 / 2 ^ 53 * \<bar>a * b\<bar> + 1 / 2 ^ 1075"
  using rnd64_error [of "a * b"] by (simp add: fl_mul_def)

text \<open>
  The computed length \<open>D\<close> of a vector against its length \<open>N\<close>: within \<open>5 \<times> 2\<^sup>-\<^sup>5\<^sup>3\<close> of it,
  relatively, unless the vector is very short.
\<close>

lemma computed_length:
  assumes "N = sqrt (dx\<^sup>2 + dy\<^sup>2)"
    and "D = fl_sqrt (fl_add (fl_mul dx dx) (fl_mul dy dy))"
    and "1 / 2 ^ 501 \<le> N"
  shows "N * (1 - 5 * (1 / 2 ^ 53)) \<le> D" and "D \<le> N * (1 + 5 * (1 / 2 ^ 53))"
proof -
  have N0: "0 \<le> N"
    by (simp add: assms(1))
  have N2: "N\<^sup>2 = dx\<^sup>2 + dy\<^sup>2"
    by (simp add: assms(1))
  have "(1 / 2 ^ 501)\<^sup>2 \<le> N\<^sup>2"
    using assms(3) by (intro power_mono) simp_all
  then have big2: "1 / 2 ^ 1002 \<le> N\<^sup>2"
    by (simp add: power_divide)
  have h2: "4 * (1 / 2 ^ 1075) \<le> 1 / 2 ^ 53 * N\<^sup>2"
    using big2 by simp
  have h1: "4 * (1 / 2 ^ 1075) \<le> 1 / 2 ^ 53 * N"
    using assms(3) by simp
  have X: "0 \<le> dx\<^sup>2" and Y: "0 \<le> dy\<^sup>2"
    by simp_all
  have a: "\<bar>fl_mul dx dx - dx\<^sup>2\<bar> \<le> 1 / 2 ^ 53 * dx\<^sup>2 + 1 / 2 ^ 1075"
    and b: "\<bar>fl_mul dy dy - dy\<^sup>2\<bar> \<le> 1 / 2 ^ 53 * dy\<^sup>2 + 1 / 2 ^ 1075"
    by (rule fl_mul_self_error)+
  have s: "\<bar>fl_add (fl_mul dx dx) (fl_mul dy dy) - (fl_mul dx dx + fl_mul dy dy)\<bar>
      \<le> 1 / 2 ^ 53 * \<bar>fl_mul dx dx + fl_mul dy dy\<bar> + 1 / 2 ^ 1075"
    by (rule fl_add_error)
  have Dh: "\<bar>D - sqrt (fl_add (fl_mul dx dx) (fl_mul dy dy))\<bar>
      \<le> 1 / 2 ^ 53 * \<bar>sqrt (fl_add (fl_mul dx dx) (fl_mul dy dy))\<bar> + 1 / 2 ^ 1075"
    unfolding assms(2) by (rule fl_sqrt_error)
  have u: "(0::real) \<le> 1 / 2 ^ 53" "(1::real) / 2 ^ 53 \<le> 1 / 8" "(0::real) \<le> 1 / 2 ^ 1075"
    by simp_all
  show "N * (1 - 5 * (1 / 2 ^ 53)) \<le> D"
    using X Y N0 N2 a b s Dh u h2 h1 by (rule computed_sqrt_bounds(1))
  show "D \<le> N * (1 + 5 * (1 / 2 ^ 53))"
    using X Y N0 N2 a b s Dh u h2 h1 by (rule computed_sqrt_bounds(2))
qed

lemma computed_length_short:
  assumes "N = sqrt (dx\<^sup>2 + dy\<^sup>2)"
    and "D = fl_sqrt (fl_add (fl_mul dx dx) (fl_mul dy dy))"
    and "N \<le> 1 / 2 ^ 501"
  shows "D \<le> 1 / 2 ^ 500"
proof -
  have N0: "0 \<le> N"
    by (simp add: assms(1))
  have N2: "N\<^sup>2 = dx\<^sup>2 + dy\<^sup>2"
    by (simp add: assms(1))
  have s0: "0 \<le> fl_add (fl_mul dx dx) (fl_mul dy dy)"
    unfolding fl_add_def using fl_mul_self_nonneg [of dx] fl_mul_self_nonneg [of dy]
    by (intro rnd64_nonneg) simp
  have X: "0 \<le> dx\<^sup>2" and Y: "0 \<le> dy\<^sup>2"
    by simp_all
  have a0: "0 \<le> fl_mul dx dx" and b0: "0 \<le> fl_mul dy dy"
    by (rule fl_mul_self_nonneg)+
  have a: "\<bar>fl_mul dx dx - dx\<^sup>2\<bar> \<le> 1 / 2 ^ 53 * dx\<^sup>2 + 1 / 2 ^ 1075"
    and b: "\<bar>fl_mul dy dy - dy\<^sup>2\<bar> \<le> 1 / 2 ^ 53 * dy\<^sup>2 + 1 / 2 ^ 1075"
    by (rule fl_mul_self_error)+
  have s: "\<bar>fl_add (fl_mul dx dx) (fl_mul dy dy) - (fl_mul dx dx + fl_mul dy dy)\<bar>
      \<le> 1 / 2 ^ 53 * \<bar>fl_mul dx dx + fl_mul dy dy\<bar> + 1 / 2 ^ 1075"
    by (rule fl_add_error)
  have Dh: "\<bar>D - sqrt (fl_add (fl_mul dx dx) (fl_mul dy dy))\<bar>
      \<le> 1 / 2 ^ 53 * \<bar>sqrt (fl_add (fl_mul dx dx) (fl_mul dy dy))\<bar> + 1 / 2 ^ 1075"
    unfolding assms(2) by (rule fl_sqrt_error)
  have u: "(0::real) \<le> 1 / 2 ^ 53" "(1::real) / 2 ^ 53 \<le> 1 / 8" "(0::real) \<le> 1 / 2 ^ 1075"
    by simp_all
  have h: "64 * (1 / 2 ^ 1075) \<le> ((1::real) / 2 ^ 501)\<^sup>2"
    "64 * (1 / 2 ^ 1075) \<le> (1::real) / 2 ^ 501"
    by (simp_all add: power_divide)
  have "D \<le> 3 / 2 * (1 / 2 ^ 501)"
    using N2 assms(3) N0 X Y a0 b0 s0 a b s Dh u h by (rule computed_sqrt_small)
  then show ?thesis
    by simp
qed

subsection \<open>Distances and thresholds\<close>

lemma less_sqrt_iff: "0 \<le> t \<Longrightarrow> t < sqrt a \<longleftrightarrow> t\<^sup>2 < a"
  using real_sqrt_less_iff [of "t\<^sup>2" a] by simp

lemma distance_gt_iff:
  "0 \<le> t \<Longrightarrow> t < distance p \<longleftrightarrow> t\<^sup>2 < (point_x p)\<^sup>2 + (point_y p)\<^sup>2"
  by (simp add: distance_def less_sqrt_iff)

lemma distance_eqI:
  "0 \<le> d \<Longrightarrow> x\<^sup>2 + y\<^sup>2 = d\<^sup>2 \<Longrightarrow> distance \<lparr>point_x = x, point_y = y\<rparr> = d"
  by (simp add: distance_def)

lemma abs_x_le_distance: "\<bar>point_x p\<bar> \<le> distance p"
  unfolding distance_def by (rule real_le_rsqrt) simp

lemma abs_y_le_distance: "\<bar>point_y p\<bar> \<le> distance p"
  unfolding distance_def by (rule real_le_rsqrt) simp

lemma direction_empty_iff:
  "direction p = [] \<longleftrightarrow> \<bar>point_x p\<bar> \<le> 15 \<and> \<bar>point_y p\<bar> \<le> 15"
  by (auto simp add: direction_def vertical_def horizontal_def truthy_def threshold_def)

lemma labels_empty_iff:
  "vertical p = [] \<and> horizontal p = [] \<longleftrightarrow> direction p = []"
  by (auto simp add: direction_def vertical_def horizontal_def truthy_def threshold_def)

lemma direction_distance: "direction p \<noteq> [] \<Longrightarrow> threshold < distance p"
  using abs_x_le_distance [of p] abs_y_le_distance [of p]
  by (auto simp add: direction_empty_iff threshold_def)

text \<open>Each block pushes a phrase exactly when the direction label is not empty.\<close>

lemma headParts_eq:
  "headParts p =
     (if direction p = [] then []
      else [''Tilt the main subject's head ''
              @ (if distance p > 48 then ''significantly ''
                 else if distance p < 25.6 then ''slightly '' else '''')
              @ direction p @ ''.''])"
  using direction_distance [of p] by (simp add: headParts_def truthy_def Let_def)

lemma bodyParts_eq:
  "bodyParts p =
     (if direction p = [] then []
      else [''Turn the main subject's body ''
              @ (if distance p > 60 then ''significantly ''
                 else if distance p < 32 then ''slightly '' else '''')
              @ ''to face '' @ direction p @ ''.''])"
  using direction_distance [of p] by (simp add: bodyParts_def truthy_def Let_def)

lemma gazeParts_eq:
  "gazeParts p =
     (if direction p = [] then [] else [''Make the subject look '' @ direction p @ ''.''])"
  using direction_distance [of p] by (simp add: gazeParts_def truthy_def Let_def)

lemma direction_cases:
  "direction p \<in> {'''', ''up'', ''down'', ''left'', ''right'', ''up and to the left'',
     ''up and to the right'', ''down and to the left'', ''down and to the right''}"
  by (simp add: direction_def vertical_def horizontal_def truthy_def)

subsection \<open>Composer ordering\<close>

lemma head_up:
  "headParts \<lparr>point_x = 0, point_y = - 30\<rparr> = [''Tilt the main subject's head up.'']"
proof -
  have "distance \<lparr>point_x = 0, point_y = - 30\<rparr> = 30"
    by (rule distance_eqI) simp_all
  then show ?thesis
    by (simp add: headParts_eq direction_def vertical_def horizontal_def truthy_def
        threshold_def)
qed

lemma body_right:
  "bodyParts \<lparr>point_x = 30, point_y = 0\<rparr>
     = [''Turn the main subject's body slightly to face right.'']"
proof -
  have "distance \<lparr>point_x = 30, point_y = 0\<rparr> = 30"
    by (rule distance_eqI) simp_all
  then show ?thesis
    by (simp add: bodyParts_eq direction_def vertical_def horizontal_def truthy_def
        threshold_def)
qed

lemma gaze_down:
  "gazeParts \<lparr>point_x = 0, point_y = 30\<rparr> = [''Make the subject look down.'']"
  by (simp add: gazeParts_eq direction_def vertical_def horizontal_def truthy_def
      threshold_def)

text \<open>
  C1, as the code has it.  With head offset \<open>(0,-30)\<close>, body offset \<open>(30,0)\<close> and gaze
  offset \<open>(0,30)\<close>, whatever the rest of the state, the composed prompt is the head phrase,
  then the body phrase, then the gaze phrase, joined by single spaces.  The head and gaze
  phrases carry no qualifier; the body phrase carries ``slightly'', since the body block
  compares the distance 30 with \<open>0.4 \<times> 80 = 32\<close>.
\<close>

theorem generatePrompt_ordering:
  "generatePrompt (s\<lparr>headOffset := \<lparr>point_x = 0, point_y = - 30\<rparr>,
                     bodyOffset := \<lparr>point_x = 30, point_y = 0\<rparr>,
                     gazeOffset := \<lparr>point_x = 0, point_y = 30\<rparr>\<rparr>)
   = ''Tilt the main subject's head up. Turn the main subject's body slightly to face right. Make the subject look down.''"
  by (simp add: generatePrompt_def head_up body_right gaze_down)

text \<open>The instance at the initial state of the component.\<close>

theorem generatePrompt_ordering_witness:
  "generatePrompt (initial_state\<lparr>headOffset := \<lparr>point_x = 0, point_y = - 30\<rparr>,
                                 bodyOffset := \<lparr>point_x = 30, point_y = 0\<rparr>,
                                 gazeOffset := \<lparr>point_x = 0, point_y = 30\<rparr>\<rparr>)
   = ''Tilt the main subject's head up. Turn the main subject's body slightly to face right. Make the subject look down.''"
  by (rule generatePrompt_ordering)

text \<open>
  C1 as stated fails: from the initial state with these three offsets the prompt is not the
  string without qualifiers.
\<close>

theorem generatePrompt_ordering_counterexample:
  "generatePrompt (initial_state\<lparr>headOffset := \<lparr>point_x = 0, point_y = - 30\<rparr>,
                                 bodyOffset := \<lparr>point_x = 30, point_y = 0\<rparr>,
                                 gazeOffset := \<lparr>point_x = 0, point_y = 30\<rparr>\<rparr>)
   \<noteq> ''Tilt the main subject's head up. Turn the main subject's body to face right. Make the subject look down.''"
  by (simp add: generatePrompt_def head_up body_right gaze_down)

subsection \<open>Composer fallback\<close>

text \<open>
  C5.  When the gaze, head and body offsets are all within the deadzone (distance at most
  15), the composer returns the fallback sentence.
\<close>

theorem fallback_in_deadzone:
  assumes "distance (gazeOffset s) \<le> 15"
    and "distance (headOffset s) \<le> 15"
    and "distance (bodyOffset s) \<le> 15"
  shows "generatePrompt s =
    ''Make a high-quality, photorealistic image of the subject, keeping the style the same.''"
  using assms
  by (simp add: generatePrompt_def headParts_def bodyParts_def gazeParts_def fallback_def
      threshold_def)

text \<open>The instance \<open>compose((0,0),(0,0),(0,0))\<close>: the initial state.\<close>

theorem fallback_in_deadzone_witness:
  "distance (gazeOffset initial_state) \<le> 15 \<and>
   distance (headOffset initial_state) \<le> 15 \<and>
   distance (bodyOffset initial_state) \<le> 15 \<and>
   gazeOffset initial_state = \<lparr>point_x = 0, point_y = 0\<rparr> \<and>
   headOffset initial_state = \<lparr>point_x = 0, point_y = 0\<rparr> \<and>
   bodyOffset initial_state = \<lparr>point_x = 0, point_y = 0\<rparr> \<and>
   generatePrompt initial_state =
    ''Make a high-quality, photorealistic image of the subject, keeping the style the same.''"
proof -
  have z: "distance \<lparr>point_x = 0, point_y = 0\<rparr> = 0"
    by (rule distance_eqI) simp_all
  have g: "distance (gazeOffset initial_state) \<le> 15"
    and h: "distance (headOffset initial_state) \<le> 15"
    and b: "distance (bodyOffset initial_state) \<le> 15"
    by (simp_all add: initial_state_def z)
  from fallback_in_deadzone [OF g h b] g h b show ?thesis
    by (simp add: initial_state_def)
qed

subsection \<open>Deadzone\<close>

lemma distance_on_x_axis: "0 \<le> a \<Longrightarrow> distance \<lparr>point_x = a, point_y = 0\<rparr> = a"
  by (rule distance_eqI) simp_all

text \<open>
  C4 as stated fails: the offset \<open>(10.7, 10.7)\<close> has distance above 15 (its square is
  228.98, above 225), both direction labels are empty, and no block pushes a phrase.  The
  case called impossible occurs, and a distance marginally above 15 need not produce a
  phrase.
\<close>

theorem deadzone_counterexample:
  "15 < distance \<lparr>point_x = 10.7, point_y = 10.7\<rparr>
   \<and> vertical \<lparr>point_x = 10.7, point_y = 10.7\<rparr> = ''''
   \<and> horizontal \<lparr>point_x = 10.7, point_y = 10.7\<rparr> = ''''
   \<and> headParts \<lparr>point_x = 10.7, point_y = 10.7\<rparr> = []
   \<and> bodyParts \<lparr>point_x = 10.7, point_y = 10.7\<rparr> = []
   \<and> gazeParts \<lparr>point_x = 10.7, point_y = 10.7\<rparr> = []"
proof -
  have "15 < distance \<lparr>point_x = 10.7, point_y = 10.7\<rparr>"
    by (simp add: distance_gt_iff power2_eq_square)
  moreover have "direction \<lparr>point_x = 10.7, point_y = 10.7\<rparr> = []"
    by (simp add: direction_empty_iff)
  ultimately show ?thesis
    by (simp add: headParts_eq bodyParts_eq gazeParts_eq vertical_def horizontal_def
        threshold_def)
qed

text \<open>
  C4, as the code has it.  For each of the three blocks:
  \<^item> an offset whose distance is at most 15, in particular exactly 15, contributes no
    phrase;
  \<^item> a phrase is contributed exactly when \<open>|x| > 15\<close> or \<open>|y| > 15\<close>, so an offset that
    leaves the deadzone along an axis by any margin \<open>e > 0\<close> (distance \<open>15 + e\<close>) produces
    a phrase;
  \<^item> when both the vertical and the horizontal label are empty the block contributes no
    phrase, whatever the distance.
\<close>

theorem deadzone_exactness:
  "(distance p \<le> 15 \<longrightarrow> headParts p = [] \<and> bodyParts p = [] \<and> gazeParts p = [])
   \<and> (headParts p \<noteq> [] \<longleftrightarrow> 15 < \<bar>point_x p\<bar> \<or> 15 < \<bar>point_y p\<bar>)
   \<and> (bodyParts p \<noteq> [] \<longleftrightarrow> 15 < \<bar>point_x p\<bar> \<or> 15 < \<bar>point_y p\<bar>)
   \<and> (gazeParts p \<noteq> [] \<longleftrightarrow> 15 < \<bar>point_x p\<bar> \<or> 15 < \<bar>point_y p\<bar>)
   \<and> (0 < e \<longrightarrow> distance \<lparr>point_x = 15 + e, point_y = 0\<rparr> = 15 + e
          \<and> headParts \<lparr>point_x = 15 + e, point_y = 0\<rparr> \<noteq> []
          \<and> bodyParts \<lparr>point_x = 15 + e, point_y = 0\<rparr> \<noteq> []
          \<and> gazeParts \<lparr>point_x = 15 + e, point_y = 0\<rparr> \<noteq> [])
   \<and> (vertical p = [] \<and> horizontal p = []
          \<longrightarrow> headParts p = [] \<and> bodyParts p = [] \<and> gazeParts p = [])"
proof -
  have inside: "distance p \<le> 15 \<longrightarrow> headParts p = [] \<and> bodyParts p = [] \<and> gazeParts p = []"
    by (simp add: headParts_def bodyParts_def gazeParts_def threshold_def)
  have iff: "direction p \<noteq> [] \<longleftrightarrow> 15 < \<bar>point_x p\<bar> \<or> 15 < \<bar>point_y p\<bar>" for p
    by (auto simp add: direction_empty_iff)
  have h: "headParts p \<noteq> [] \<longleftrightarrow> direction p \<noteq> []" for p
    by (simp add: headParts_eq)
  have b: "bodyParts p \<noteq> [] \<longleftrightarrow> direction p \<noteq> []" for p
    by (simp add: bodyParts_eq)
  have g: "gazeParts p \<noteq> [] \<longleftrightarrow> direction p \<noteq> []" for p
    by (simp add: gazeParts_eq)
  have margin: "0 < e \<longrightarrow> distance \<lparr>point_x = 15 + e, point_y = 0\<rparr> = 15 + e
          \<and> headParts \<lparr>point_x = 15 + e, point_y = 0\<rparr> \<noteq> []
          \<and> bodyParts \<lparr>point_x = 15 + e, point_y = 0\<rparr> \<noteq> []
          \<and> gazeParts \<lparr>point_x = 15 + e, point_y = 0\<rparr> \<noteq> []"
    by (simp add: h b g iff distance_on_x_axis)
  have empty: "vertical p = [] \<and> horizontal p = []
          \<longrightarrow> headParts p = [] \<and> bodyParts p = [] \<and> gazeParts p = []"
    using h [of p] b [of p] g [of p] labels_empty_iff [of p] by blast
  from inside h [of p] b [of p] g [of p] iff [of p] margin empty show ?thesis
    by blast
qed

text \<open>
  The instances: \<open>(15, 0)\<close>, at distance exactly 15, contributes nothing; \<open>(15.001, 0)\<close>,
  at distance 15.001, contributes a phrase.
\<close>

theorem deadzone_exactness_witness:
  "distance \<lparr>point_x = 15, point_y = 0\<rparr> = 15
   \<and> headParts \<lparr>point_x = 15, point_y = 0\<rparr> = []
   \<and> bodyParts \<lparr>point_x = 15, point_y = 0\<rparr> = []
   \<and> gazeParts \<lparr>point_x = 15, point_y = 0\<rparr> = []
   \<and> vertical \<lparr>point_x = 15, point_y = 0\<rparr> = []
   \<and> horizontal \<lparr>point_x = 15, point_y = 0\<rparr> = []
   \<and> distance \<lparr>point_x = 15 + 0.001, point_y = 0\<rparr> = 15 + 0.001
   \<and> headParts \<lparr>point_x = 15 + 0.001, point_y = 0\<rparr> \<noteq> []
   \<and> bodyParts \<lparr>point_x = 15 + 0.001, point_y = 0\<rparr> \<noteq> []
   \<and> gazeParts \<lparr>point_x = 15 + 0.001, point_y = 0\<rparr> \<noteq> []"
proof -
  have d: "distance \<lparr>point_x = 15, point_y = 0\<rparr> = 15"
    by (rule distance_eqI) simp_all
  have v: "vertical \<lparr>point_x = 15, point_y = 0\<rparr> = []"
    and h: "horizontal \<lparr>point_x = 15, point_y = 0\<rparr> = []"
    by (simp_all add: vertical_def horizontal_def threshold_def)
  have e: "(0::real) < 0.001" by simp
  from d v h e deadzone_exactness [of "\<lparr>point_x = 15, point_y = 0\<rparr>" "0.001"]
  show ?thesis by simp
qed

subsection \<open>Intensity qualifiers\<close>

text \<open>
  C3 as stated fails: the head offset \<open>(400/29, 420/29)\<close> has distance exactly 20, past the
  deadzone and below \<open>0.4 \<times> 64\<close>, but neither coordinate exceeds 15, so the head block
  pushes no phrase and the prompt is the fallback sentence, without ``slightly''.
\<close>

theorem intensity_counterexample:
  "distance \<lparr>point_x = 400 / 29, point_y = 420 / 29\<rparr> = 20
   \<and> headParts \<lparr>point_x = 400 / 29, point_y = 420 / 29\<rparr> = []
   \<and> generatePrompt (initial_state\<lparr>headOffset := \<lparr>point_x = 400 / 29, point_y = 420 / 29\<rparr>\<rparr>)
       = ''Make a high-quality, photorealistic image of the subject, keeping the style the same.''"
proof -
  have d: "distance \<lparr>point_x = 400 / 29, point_y = 420 / 29\<rparr> = 20"
    by (rule distance_eqI) (simp_all add: power2_eq_square)
  have h: "headParts \<lparr>point_x = 400 / 29, point_y = 420 / 29\<rparr> = []"
    by (simp add: headParts_eq direction_empty_iff)
  have z: "direction \<lparr>point_x = 0, point_y = 0\<rparr> = []"
    by (simp add: direction_empty_iff)
  from d h z show ?thesis
    by (simp add: generatePrompt_def initial_state_def bodyParts_eq gazeParts_eq fallback_def)
qed

text \<open>
  Ground evaluations: the literals \<open>0.75\<close> and \<open>0.4\<close>, the four thresholds, and the computed
  distances of \<open>(30, 40)\<close>, \<open>(0, 20)\<close> and \<open>(48, 2\<^sup>-\<^sup>2\<^sup>2)\<close>.
\<close>

lemma c3_lit_1: "rnd64 (3 / 4) = 3 / 4"
proof -
  have "rnd64 (3 / 4) = of_int 6755399441055744 * (1 / 2 ^ 53)"
    by (rule rnd64_eqI [where e = "- 53"]) (simp_all add: powr_neg_numeral)
  then show ?thesis
    by simp
qed

lemma c3_lit_2: "rnd64 (2 / 5) = 3602879701896397 / 9007199254740992"
proof -
  have "rnd64 (2 / 5) = of_int 7205759403792794 * (1 / 2 ^ 54)"
    by (rule rnd64_eqI [where e = "- 54"]) (simp_all add: powr_neg_numeral)
  then show ?thesis
    by simp
qed

lemma c3_mul_3: "fl_mul 64 (3 / 4) = 48"
proof -
  have "rnd64 (64 * (3 / 4)) = of_int 6755399441055744 * (1 / 2 ^ 47)"
    by (rule rnd64_eqI [where e = "- 47"]) (simp_all add: powr_neg_numeral)
  then show ?thesis
    by (simp add: fl_mul_def)
qed

lemma c3_mul_4: "fl_mul 64 (3602879701896397 / 9007199254740992) = 3602879701896397 / 140737488355328"
proof -
  have "rnd64 (64 * (3602879701896397 / 9007199254740992)) = of_int 7205759403792794 * (1 / 2 ^ 48)"
    by (rule rnd64_eqI [where e = "- 48"]) (simp_all add: powr_neg_numeral)
  then show ?thesis
    by (simp add: fl_mul_def)
qed

lemma c3_mul_5: "fl_mul 80 (3 / 4) = 60"
proof -
  have "rnd64 (80 * (3 / 4)) = of_int 8444249301319680 * (1 / 2 ^ 47)"
    by (rule rnd64_eqI [where e = "- 47"]) (simp_all add: powr_neg_numeral)
  then show ?thesis
    by (simp add: fl_mul_def)
qed

lemma c3_mul_6: "fl_mul 80 (3602879701896397 / 9007199254740992) = 32"
proof -
  have "rnd64 (80 * (3602879701896397 / 9007199254740992)) = of_int 4503599627370496 * (1 / 2 ^ 47)"
    by (rule rnd64_eqI [where e = "- 47"]) (simp_all add: powr_neg_numeral)
  then show ?thesis
    by (simp add: fl_mul_def)
qed

lemma c3_mul_7: "fl_mul 30 30 = 900"
proof -
  have "rnd64 (30 * 30) = of_int 7916483719987200 * (1 / 2 ^ 43)"
    by (rule rnd64_eqI [where e = "- 43"]) (simp_all add: powr_neg_numeral)
  then show ?thesis
    by (simp add: fl_mul_def)
qed

lemma c3_mul_8: "fl_mul 40 40 = 1600"
proof -
  have "rnd64 (40 * 40) = of_int 7036874417766400 * (1 / 2 ^ 42)"
    by (rule rnd64_eqI [where e = "- 42"]) (simp_all add: powr_neg_numeral)
  then show ?thesis
    by (simp add: fl_mul_def)
qed

lemma c3_add_9: "fl_add 900 1600 = 2500"
proof -
  have "rnd64 (900 + 1600) = of_int 5497558138880000 * (1 / 2 ^ 41)"
    by (rule rnd64_eqI [where e = "- 41"]) (simp_all add: powr_neg_numeral)
  then show ?thesis
    by (simp add: fl_add_def)
qed

lemma c3_sqrt_10: "fl_sqrt 2500 = 50"
proof -
  have "rnd64 (sqrt 2500) = of_int 7036874417766400 * (1 / 2 ^ 47)"
    by (rule rnd64_sqrt_eqI [where e = "- 47"])
      (simp_all add: powr_neg_numeral power2_eq_square)
  then show ?thesis
    by (simp add: fl_sqrt_def)
qed

lemma c3_mul_11: "fl_mul 0 0 = 0"
  by (simp add: fl_mul_def rnd64_zero)

lemma c3_mul_12: "fl_mul 20 20 = 400"
proof -
  have "rnd64 (20 * 20) = of_int 7036874417766400 * (1 / 2 ^ 44)"
    by (rule rnd64_eqI [where e = "- 44"]) (simp_all add: powr_neg_numeral)
  then show ?thesis
    by (simp add: fl_mul_def)
qed

lemma c3_add_13: "fl_add 0 400 = 400"
proof -
  have "rnd64 (0 + 400) = of_int 7036874417766400 * (1 / 2 ^ 44)"
    by (rule rnd64_eqI [where e = "- 44"]) (simp_all add: powr_neg_numeral)
  then show ?thesis
    by (simp add: fl_add_def)
qed

lemma c3_sqrt_14: "fl_sqrt 400 = 20"
proof -
  have "rnd64 (sqrt 400) = of_int 5629499534213120 * (1 / 2 ^ 48)"
    by (rule rnd64_sqrt_eqI [where e = "- 48"])
      (simp_all add: powr_neg_numeral power2_eq_square)
  then show ?thesis
    by (simp add: fl_sqrt_def)
qed

lemma c3_mul_15: "fl_mul 48 48 = 2304"
proof -
  have "rnd64 (48 * 48) = of_int 5066549580791808 * (1 / 2 ^ 41)"
    by (rule rnd64_eqI [where e = "- 41"]) (simp_all add: powr_neg_numeral)
  then show ?thesis
    by (simp add: fl_mul_def)
qed

lemma c3_mul_16: "fl_mul (1 / 4194304) (1 / 4194304) = 1 / 17592186044416"
proof -
  have "rnd64 ((1 / 4194304) * (1 / 4194304)) = of_int 4503599627370496 * (1 / 2 ^ 96)"
    by (rule rnd64_eqI [where e = "- 96"]) (simp_all add: powr_neg_numeral)
  then show ?thesis
    by (simp add: fl_mul_def)
qed

lemma c3_add_17: "fl_add 2304 (1 / 17592186044416) = 2304"
proof -
  have "rnd64 (2304 + (1 / 17592186044416)) = of_int 5066549580791808 * (1 / 2 ^ 41)"
    by (rule rnd64_eqI [where e = "- 41"]) (simp_all add: powr_neg_numeral)
  then show ?thesis
    by (simp add: fl_add_def)
qed

lemma c3_sqrt_18: "fl_sqrt 2304 = 48"
proof -
  have "rnd64 (sqrt 2304) = of_int 6755399441055744 * (1 / 2 ^ 47)"
    by (rule rnd64_sqrt_eqI [where e = "- 47"])
      (simp_all add: powr_neg_numeral power2_eq_square)
  then show ?thesis
    by (simp add: fl_sqrt_def)
qed

text \<open>The thresholds the code computes: 48 and 25.600000000000001 for the head, 60 and 32
  for the body.\<close>

lemma head_thresholds:
  "fl_mul 64 (rnd64 0.75) = 48"
  "fl_mul 64 (rnd64 0.4) = 3602879701896397 / 140737488355328"
  by (simp_all add: c3_lit_1 c3_lit_2 c3_mul_3 c3_mul_4)

lemma body_thresholds:
  "fl_mul 80 (rnd64 0.75) = 60"
  "fl_mul 80 (rnd64 0.4) = 32"
  by (simp_all add: c3_lit_1 c3_lit_2 c3_mul_5 c3_mul_6)

lemma distance64_nonneg: "0 \<le> distance64 p"
  unfolding distance64_def fl_sqrt_def fl_add_def
  by (intro rnd64_nonneg real_sqrt_ge_zero add_nonneg_nonneg fl_mul_self_nonneg)

text \<open>
  Between 25.6 and the computed product \<open>64 * 0.4\<close>, the binary64 number next above it,
  there is no value of a rounded operation: for a computed distance, to be below the one
  is to be below the other.
\<close>

lemma rnd64_below_head_threshold:
  "rnd64 z < 3602879701896397 / 140737488355328 \<longleftrightarrow> rnd64 z < 25.6"
proof
  assume "rnd64 z < 25.6"
  then show "rnd64 z < 3602879701896397 / 140737488355328"
    by simp
next
  assume below: "rnd64 z < 3602879701896397 / 140737488355328"
  have err: "\<bar>rnd64 z - z\<bar> \<le> \<bar>z\<bar> / 2 ^ 53 + 1 / 2 ^ 1075"
    by (rule rnd64_error)
  consider "z < 16" | "16 \<le> z" "z < 32" | "32 \<le> z"
    by linarith
  then show "rnd64 z < 25.6"
  proof cases
    case 1
    with err show ?thesis
      by (simp add: abs_if split: if_splits)
  next
    case 2
    have e: "expo64 z = - 48"
      using 2 by (intro expo64_eqI) (simp_all add: powr_neg_numeral)
    define j where "j = rne (z / 2 powr of_int (expo64 z))"
    have d: "rnd64 z = of_int j / 2 ^ 48"
      using 2 by (simp add: rnd64_def j_def e powr_neg_numeral)
    from below have "of_int j < (7205759403792794 :: real)"
      by (simp add: d)
    then have "j < 7205759403792794"
      by linarith
    then have "j \<le> 7205759403792793"
      by simp
    then have "(of_int j :: real) \<le> 7205759403792793"
      by linarith
    then show ?thesis
      by (simp add: d)
  next
    case 3
    with err below show ?thesis
      by (simp add: abs_if split: if_splits)
  qed
qed

lemma distance64_below_head_threshold:
  "distance64 p < 3602879701896397 / 140737488355328 \<longleftrightarrow> distance64 p < 25.6"
  unfolding distance64_def fl_sqrt_def by (rule rnd64_below_head_threshold)

text \<open>The two blocks with their thresholds evaluated.\<close>

lemma headParts64_eq:
  "headParts64 p =
     (if 15 < distance64 p \<and> direction p \<noteq> []
      then [''Tilt the main subject's head ''
              @ (if distance64 p > 48 then ''significantly ''
                 else if distance64 p < 25.6 then ''slightly '' else '''')
              @ direction p @ ''.'']
      else [])"
proof -
  have lo: "(distance64 p < fl_mul 64 (rnd64 0.4)) = (distance64 p < 25.6)"
    by (simp only: head_thresholds distance64_below_head_threshold)
  show ?thesis
    unfolding headParts64_def Let_def lo head_thresholds(1)
    by (simp add: truthy_def threshold_def)
qed

lemma bodyParts64_eq:
  "bodyParts64 p =
     (if 15 < distance64 p \<and> direction p \<noteq> []
      then [''Turn the main subject's body ''
              @ (if distance64 p > 60 then ''significantly ''
                 else if distance64 p < 32 then ''slightly '' else '''')
              @ ''to face '' @ direction p @ ''.'']
      else [])"
  unfolding bodyParts64_def Let_def body_thresholds
  by (simp add: truthy_def threshold_def)

text \<open>Inside the square of the deadzone the computed distance stays below 22.\<close>

lemma distance64_in_square:
  assumes "direction p = []"
  shows "distance64 p < 22"
proof -
  define N where "N = sqrt ((point_x p)\<^sup>2 + (point_y p)\<^sup>2)"
  have N: "N = sqrt ((point_x p)\<^sup>2 + (point_y p)\<^sup>2)"
    by (rule N_def)
  have D: "distance64 p
      = fl_sqrt (fl_add (fl_mul (point_x p) (point_x p)) (fl_mul (point_y p) (point_y p)))"
    by (rule distance64_def)
  from assms have "\<bar>point_x p\<bar> \<le> 15" and "\<bar>point_y p\<bar> \<le> 15"
    by (simp_all add: direction_empty_iff)
  then have "(point_x p)\<^sup>2 \<le> 15\<^sup>2" and "(point_y p)\<^sup>2 \<le> 15\<^sup>2"
    by (simp_all only: abs_le_square_iff [symmetric] abs_numeral)
  then have "(point_x p)\<^sup>2 + (point_y p)\<^sup>2 \<le> 450"
    by simp
  then have "N \<le> sqrt 450"
    unfolding N_def by (rule real_sqrt_le_mono)
  also have "sqrt 450 \<le> 43 / 2"
    by (rule real_le_lsqrt) (simp_all add: power2_eq_square)
  finally have Nle: "N \<le> 43 / 2" .
  show ?thesis
  proof (cases "1 / 2 ^ 501 \<le> N")
    case True
    with N D have "distance64 p \<le> N * (1 + 5 * (1 / 2 ^ 53))"
      by (rule computed_length)
    also have "\<dots> \<le> 43 / 2 * (1 + 5 * (1 / 2 ^ 53))"
      using Nle by (intro mult_right_mono) simp_all
    finally show ?thesis
      by simp
  next
    case False
    then have "N \<le> 1 / 2 ^ 501"
      by simp
    with N D have "distance64 p \<le> 1 / 2 ^ 500"
      by (rule computed_length_short)
    then show ?thesis
      by simp
  qed
qed

text \<open>
  C3, as the code has it.  The distance compared is the computed one, the rounded value of
  \<open>Math.sqrt(x ** 2 + y ** 2)\<close>.  Whenever the head or body block contributes a phrase
  (the computed distance is above 15 and the direction label is not empty, that is
  \<open>|x| > 15\<close> or \<open>|y| > 15\<close>), the phrase carries the qualifier that the specification's
  rule gives at the computed distance for the pad's radius (64 for the head, 80 for the
  body).  Every head offset of computed distance 50 yields a phrase with ``significantly'';
  a head offset of computed distance 20 that contributes a phrase carries ``slightly''.  A
  gaze phrase is one of the eight sentences without qualifier.
\<close>

theorem intensity_qualifier:
  "(15 < distance64 p \<and> direction p \<noteq> [] \<longrightarrow>
      headParts64 p
        = [''Tilt the main subject's head '' @ spaced (qualifier_spec 64 (distance64 p))
             @ direction p @ ''.'']
    \<and> bodyParts64 p
        = [''Turn the main subject's body '' @ spaced (qualifier_spec 80 (distance64 p))
             @ ''to face '' @ direction p @ ''.''])
   \<and> (distance64 p = 50 \<longrightarrow>
        direction p \<noteq> []
        \<and> headParts64 p
            = [''Tilt the main subject's head significantly '' @ direction p @ ''.''])
   \<and> (distance64 p = 20 \<and> direction p \<noteq> [] \<longrightarrow>
        headParts64 p = [''Tilt the main subject's head slightly '' @ direction p @ ''.''])
   \<and> set (gazeParts p) \<subseteq> set gaze_sentences"
proof -
  have q: "15 < distance64 p \<and> direction p \<noteq> [] \<longrightarrow>
      headParts64 p
        = [''Tilt the main subject's head '' @ spaced (qualifier_spec 64 (distance64 p))
             @ direction p @ ''.'']
    \<and> bodyParts64 p
        = [''Turn the main subject's body '' @ spaced (qualifier_spec 80 (distance64 p))
             @ ''to face '' @ direction p @ ''.'']"
    by (simp add: headParts64_eq bodyParts64_eq qualifier_spec_def spaced_def)
  have s: "distance64 p = 50 \<longrightarrow>
        direction p \<noteq> []
        \<and> headParts64 p
            = [''Tilt the main subject's head significantly '' @ direction p @ ''.'']"
    using distance64_in_square [of p] by (auto simp add: headParts64_eq)
  have l: "distance64 p = 20 \<and> direction p \<noteq> [] \<longrightarrow>
        headParts64 p = [''Tilt the main subject's head slightly '' @ direction p @ ''.'']"
    by (simp add: headParts64_eq)
  have g: "set (gazeParts p) \<subseteq> set gaze_sentences"
    using direction_cases [of p] by (auto simp add: gazeParts_eq gaze_sentences_def)
  from q s l g show ?thesis
    by blast
qed

text \<open>
  The instances: the head offsets \<open>(30, 40)\<close> at computed distance 50 and \<open>(0, 20)\<close> at
  computed distance 20; the body offset \<open>(30, 40)\<close>, whose distance 50 lies between 32 and
  60; the gaze offset \<open>(30, 40)\<close>; and the head offset \<open>(48, 2\<^sup>-\<^sup>2\<^sup>2)\<close>, whose length is
  above 48 and whose computed distance is 48, not above the threshold.
\<close>

theorem intensity_qualifier_witness:
  "distance64 \<lparr>point_x = 30, point_y = 40\<rparr> = 50
   \<and> headParts64 \<lparr>point_x = 30, point_y = 40\<rparr>
        = [''Tilt the main subject's head significantly down and to the right.'']
   \<and> bodyParts64 \<lparr>point_x = 30, point_y = 40\<rparr>
        = [''Turn the main subject's body to face down and to the right.'']
   \<and> gazeParts \<lparr>point_x = 30, point_y = 40\<rparr> \<noteq> []
   \<and> set (gazeParts \<lparr>point_x = 30, point_y = 40\<rparr>) \<subseteq> set gaze_sentences
   \<and> distance64 \<lparr>point_x = 0, point_y = 20\<rparr> = 20
   \<and> direction \<lparr>point_x = 0, point_y = 20\<rparr> \<noteq> []
   \<and> headParts64 \<lparr>point_x = 0, point_y = 20\<rparr>
        = [''Tilt the main subject's head slightly down.'']
   \<and> 48 < distance \<lparr>point_x = 48, point_y = 1 / 2 ^ 22\<rparr>
   \<and> distance64 \<lparr>point_x = 48, point_y = 1 / 2 ^ 22\<rparr> = 48
   \<and> headParts64 \<lparr>point_x = 48, point_y = 1 / 2 ^ 22\<rparr>
        = [''Tilt the main subject's head right.'']"
proof -
  have d50: "distance64 \<lparr>point_x = 30, point_y = 40\<rparr> = 50"
    by (simp add: distance64_def c3_mul_7 c3_mul_8 c3_add_9 c3_sqrt_10)
  have dir50: "direction \<lparr>point_x = 30, point_y = 40\<rparr> = ''down and to the right''"
    by (simp add: direction_def vertical_def horizontal_def truthy_def threshold_def)
  have d20: "distance64 \<lparr>point_x = 0, point_y = 20\<rparr> = 20"
    by (simp add: distance64_def c3_mul_11 c3_mul_12 c3_add_13 c3_sqrt_14)
  have dir20: "direction \<lparr>point_x = 0, point_y = 20\<rparr> = ''down''"
    by (simp add: direction_def vertical_def horizontal_def truthy_def threshold_def)
  have d48: "distance64 \<lparr>point_x = 48, point_y = 1 / 2 ^ 22\<rparr> = 48"
    by (simp add: distance64_def c3_mul_15 c3_mul_16 c3_add_17 c3_sqrt_18)
  have dir48: "direction \<lparr>point_x = 48, point_y = 1 / 2 ^ 22\<rparr> = ''right''"
    by (simp add: direction_def vertical_def horizontal_def truthy_def threshold_def)
  have exact48: "48 < distance \<lparr>point_x = 48, point_y = 1 / 2 ^ 22\<rparr>"
    by (simp add: distance_gt_iff power2_eq_square)
  have g: "gazeParts \<lparr>point_x = 30, point_y = 40\<rparr> \<noteq> []"
    by (simp add: gazeParts_eq dir50)
  from intensity_qualifier [of "\<lparr>point_x = 30, point_y = 40\<rparr>"]
    intensity_qualifier [of "\<lparr>point_x = 0, point_y = 20\<rparr>"]
    intensity_qualifier [of "\<lparr>point_x = 48, point_y = 1 / 2 ^ 22\<rparr>"]
    d50 dir50 d20 dir20 d48 dir48 exact48 g
  show ?thesis
    by (simp add: qualifier_spec_def spaced_def)
qed

subsection \<open>Decoding data URLs\<close>

lemma split_not_Nil: "split sep s \<noteq> []"
  by (induction s) (auto split: list.splits)

lemma split_no_sep: "sep \<notin> set s \<Longrightarrow> split sep s = [s]"
  by (induction s) auto

lemma split_at_first: "sep \<notin> set xs \<Longrightarrow> split sep (xs @ sep # ys) = xs # split sep ys"
  by (induction xs) auto

lemma lazy_group_append:
  "CHR '';'' \<notin> set g \<Longrightarrow> \<forall>c \<in> set g. \<not> line_terminator c
     \<Longrightarrow> lazy_group (g @ CHR '';'' # rest) = Some g"
  by (induction g) auto

lemma match_group_no_colon: "CHR '':'' \<notin> set s \<Longrightarrow> match_group s = None"
  by (induction s) auto

lemma lazy_group_no_semicolon: "CHR '';'' \<notin> set s \<Longrightarrow> lazy_group s = None"
  by (induction s) auto

lemma match_group_no_semicolon: "CHR '';'' \<notin> set s \<Longrightarrow> match_group s = None"
  by (induction s) (auto simp add: lazy_group_no_semicolon)

lemma set_hd_split: "set (hd (split sep s)) \<subseteq> set s"
  by (induction s) (auto split: list.splits)

text \<open>
  C6.  A pair is well formed when the media type is not empty and contains no comma, no
  semicolon and no line terminator, and the payload contains no comma (base64 text has
  none).  Decoding the data URL built from such a pair returns the pair.
\<close>

theorem dataUrl_roundtrip:
  assumes "mediaType \<noteq> []"
    and "CHR '','' \<notin> set mediaType"
    and "CHR '';'' \<notin> set mediaType"
    and "\<forall>c \<in> set mediaType. \<not> line_terminator c"
    and "CHR '','' \<notin> set bytes"
  shows "dataUrlToInfo (encodeDataUrl mediaType bytes)
           = Inr \<lparr>base64Data = Some bytes, mimeType = mediaType\<rparr>"
proof -
  let ?p0 = "''data:'' @ mediaType @ '';base64''"
  have url: "encodeDataUrl mediaType bytes = ?p0 @ CHR '','' # bytes"
    by (simp add: encodeDataUrl_def)
  have "CHR '','' \<notin> set ?p0"
    using assms(2) by simp
  then have "split CHR '','' (?p0 @ CHR '','' # bytes) = ?p0 # split CHR '','' bytes"
    by (rule split_at_first)
  moreover have "split CHR '','' bytes = [bytes]"
    using assms(5) by (rule split_no_sep)
  ultimately have parts: "split CHR '','' (encodeDataUrl mediaType bytes) = [?p0, bytes]"
    by (simp only: url)
  have "lazy_group (mediaType @ CHR '';'' # ''base64'') = Some mediaType"
    using assms(3,4) by (rule lazy_group_append)
  then have "match_group ?p0 = Some mediaType"
    by simp
  with parts assms(1) show ?thesis
    by (simp add: dataUrlToInfo_def truthy_def)
qed

theorem dataUrl_roundtrip_witness:
  "dataUrlToInfo (encodeDataUrl ''image/png'' ''iVBORw0KGgo='')
     = Inr \<lparr>base64Data = Some ''iVBORw0KGgo='', mimeType = ''image/png''\<rparr>
   \<and> encodeDataUrl ''image/png'' ''iVBORw0KGgo='' = ''data:image/png;base64,iVBORw0KGgo=''"
proof -
  have "dataUrlToInfo (encodeDataUrl ''image/png'' ''iVBORw0KGgo='')
     = Inr \<lparr>base64Data = Some ''iVBORw0KGgo='', mimeType = ''image/png''\<rparr>"
    by (rule dataUrl_roundtrip) (simp_all add: line_terminator_def)
  then show ?thesis
    by (simp add: encodeDataUrl_def)
qed

text \<open>
  C7 as stated fails: on \<open>hello\<close>, which has neither a media-type prefix nor a separator,
  \<open>dataUrlToInfo\<close> returns a result, with the default media type and no payload.
\<close>

theorem decode_counterexample:
  "dataUrlToInfo ''hello''
     = Inr \<lparr>base64Data = None, mimeType = ''application/octet-stream''\<rparr>"
  by (simp add: dataUrlToInfo_def)

text \<open>
  C7, as the code has it.  \<open>dataUrlToInfo\<close> returns a result on every string and never
  fails; on a string in which the colon or the semicolon of the media-type prefix is
  absent, the media type of the result is the default \<open>application/octet-stream\<close>.
\<close>

theorem decode_never_fails:
  "\<exists>i. dataUrlToInfo dataUrl = Inr i
     \<and> (CHR '':'' \<notin> set dataUrl \<or> CHR '';'' \<notin> set dataUrl
          \<longrightarrow> mimeType i = ''application/octet-stream'')"
proof -
  obtain p0 rest where parts: "split CHR '','' dataUrl = p0 # rest"
    using split_not_Nil [of "CHR '',''" dataUrl] by (cases "split CHR '','' dataUrl") auto
  have sub: "set p0 \<subseteq> set dataUrl"
    using set_hd_split [of "CHR '',''" dataUrl] parts by simp
  have "match_group p0 = None" if "CHR '':'' \<notin> set dataUrl \<or> CHR '';'' \<notin> set dataUrl"
    using that sub match_group_no_colon [of p0] match_group_no_semicolon [of p0] by blast
  with parts show ?thesis
    by (auto simp add: dataUrlToInfo_def Let_def)
qed

theorem decode_never_fails_witness:
  "CHR '':'' \<notin> set ''image/png;base64,AAAA''
   \<and> (\<exists>i. dataUrlToInfo ''image/png;base64,AAAA'' = Inr i
         \<and> mimeType i = ''application/octet-stream'')"
  using decode_never_fails [of "''image/png;base64,AAAA''"] by simp

subsection \<open>Clamping\<close>

text \<open>Two vectors that are close have close unit vectors.\<close>

lemma unit_vector_diff:
  fixes P W :: complex
  assumes "P \<noteq> 0" and "W \<noteq> 0"
  shows "cmod (P / of_real (cmod P) - W / of_real (cmod W)) \<le> 2 * cmod (P - W) / cmod P"
proof -
  have nP: "0 < cmod P" and nW: "0 < cmod W"
    using assms by simp_all
  have split: "P / of_real (cmod P) - W / of_real (cmod W)
      = (P - W) / of_real (cmod P) + W * of_real ((cmod W - cmod P) / (cmod P * cmod W))"
    using nP nW by (simp add: field_simps)
  have "cmod (W * of_real ((cmod W - cmod P) / (cmod P * cmod W)))
      = cmod W * (\<bar>cmod W - cmod P\<bar> / (cmod P * cmod W))"
    using nP nW by (simp only: norm_mult norm_of_real abs_divide abs_mult abs_norm_cancel)
  also have "\<dots> = \<bar>cmod W - cmod P\<bar> / cmod P"
    using nP nW by simp
  also have "\<dots> \<le> cmod (P - W) / cmod P"
    using nP norm_triangle_ineq3 [of W P] by (simp add: divide_right_mono norm_minus_commute)
  finally have second: "cmod (W * of_real ((cmod W - cmod P) / (cmod P * cmod W)))
      \<le> cmod (P - W) / cmod P" .
  have first: "cmod ((P - W) / of_real (cmod P)) = cmod (P - W) / cmod P"
    by (simp add: norm_divide)
  have "cmod (P / of_real (cmod P) - W / of_real (cmod W))
      \<le> cmod ((P - W) / of_real (cmod P))
        + cmod (W * of_real ((cmod W - cmod P) / (cmod P * cmod W)))"
    unfolding split by (rule norm_triangle_ineq)
  with first second show ?thesis
    by simp
qed

text \<open>
  The clamped offset against the exactly scaled vector: its length is the radius and its
  unit vector that of \<open>(dx, dy)\<close>, each up to the relative error \<open>2\<^sup>-\<^sup>4\<^sup>9\<close>.
\<close>

lemma clamped_offset:
  assumes N: "N = sqrt (dx\<^sup>2 + dy\<^sup>2)"
    and D: "D = fl_sqrt (fl_add (fl_mul dx dx) (fl_mul dy dy))"
    and r: "1 / 2 ^ 500 \<le> r" and gt: "r < D"
    and p: "p = \<lparr>point_x = fl_mul (fl_div dx D) r, point_y = fl_mul (fl_div dy D) r\<rparr>"
  shows "distance p \<le> r * (1 + 1 / 2 ^ 49)"
    and "r * (1 - 1 / 2 ^ 49) \<le> distance p"
    and "\<bar>point_x p / distance p - dx / N\<bar> \<le> 1 / 2 ^ 49"
    and "\<bar>point_y p / distance p - dy / N\<bar> \<le> 1 / 2 ^ 49"
proof -
  define u :: real where "u = 1 / 2 ^ 53"
  have u: "0 \<le> u" "u \<le> 1 / 64" "16 * u = 1 / 2 ^ 49"
    by (simp_all add: u_def)
  have r0: "0 < r"
    using r by (rule less_le_trans [rotated]) simp
  have D0: "0 < D"
    using r0 gt by simp
  have Nbig: "1 / 2 ^ 501 \<le> N"
  proof (rule ccontr)
    assume "\<not> 1 / 2 ^ 501 \<le> N"
    then have "N \<le> 1 / 2 ^ 501"
      by simp
    with N D have "D \<le> 1 / 2 ^ 500"
      by (rule computed_length_short)
    with r gt show False
      by simp
  qed
  then have N0: "0 < N"
    by (rule less_le_trans [rotated]) simp
  have lo: "N * (1 - 5 * u) \<le> D" and hi: "D \<le> N * (1 + 5 * u)"
    unfolding u_def using N D Nbig by (rule computed_length)+
  have dN: "\<bar>dx\<bar> \<le> N" "\<bar>dy\<bar> \<le> N"
    using abs_x_le_distance [of "\<lparr>point_x = dx, point_y = dy\<rparr>"]
      abs_y_le_distance [of "\<lparr>point_x = dx, point_y = dy\<rparr>"]
    by (simp_all add: N distance_def)
  have h: "(0::real) \<le> 1 / 2 ^ 1075" "4 * (1 / 2 ^ 1075) \<le> u * r" "4 * (1 / 2 ^ 1075) \<le> u"
    using r by (simp_all add: u_def)
  let ?px = "fl_mul (fl_div dx D) r" and ?py = "fl_mul (fl_div dy D) r"
  let ?wx = "dx / D * r" and ?wy = "dy / D * r"
  have ex: "\<bar>?px - ?wx\<bar> \<le> 3 * (u * r)"
    using dN(1) lo D0 r0 fl_div_error [of dx D, folded u_def]
      fl_mul_error [of "fl_div dx D" r, folded u_def] u(1,2) h
    by (rule scaled_coordinate_error)
  have ey: "\<bar>?py - ?wy\<bar> \<le> 3 * (u * r)"
    using dN(2) lo D0 r0 fl_div_error [of dy D, folded u_def]
      fl_mul_error [of "fl_div dy D" r, folded u_def] u(1,2) h
    by (rule scaled_coordinate_error)
  define P where "P = Complex ?px ?py"
  define V where "V = Complex dx dy"
  define W where "W = Complex ?wx ?wy"
  have nP: "cmod P = distance p"
    by (simp add: P_def p distance_def cmod_def)
  have nV: "cmod V = N"
    by (simp add: V_def N cmod_def)
  have W: "W = of_real (r / D) * V"
    by (simp add: W_def V_def complex_eq_iff)
  have nW: "cmod W = r / D * N"
    using r0 D0 by (simp add: W nV norm_mult norm_divide)
  have "cmod (P - W) \<le> \<bar>Re (P - W)\<bar> + \<bar>Im (P - W)\<bar>"
    by (rule cmod_le)
  then have PW: "cmod (P - W) \<le> 6 * (u * r)"
    using ex ey by (simp add: P_def W_def)
  have uu: "u * u \<le> 1 / 64 * u"
    using u(2,1) by (rule mult_right_mono)
  have "1 \<le> (1 - 5 * u) * (1 + 6 * u)"
    using uu u by (simp add: algebra_simps)
  then have "N * 1 \<le> N * ((1 - 5 * u) * (1 + 6 * u))"
    using N0 by (intro mult_left_mono) simp_all
  also have "\<dots> = N * (1 - 5 * u) * (1 + 6 * u)"
    by simp
  also have "\<dots> \<le> D * (1 + 6 * u)"
    using lo u by (intro mult_right_mono) simp_all
  finally have ND_hi: "N / D \<le> 1 + 6 * u"
    using D0 by (simp add: field_simps)
  have "(1 + 5 * u) * (1 - 5 * u) \<le> 1"
    using u by (simp add: algebra_simps)
  then have "N * ((1 + 5 * u) * (1 - 5 * u)) \<le> N * 1"
    using N0 by (intro mult_left_mono) simp_all
  moreover have "D * (1 - 5 * u) \<le> N * (1 + 5 * u) * (1 - 5 * u)"
    using hi u by (intro mult_right_mono) simp_all
  ultimately have "D * (1 - 5 * u) \<le> N"
    by (simp add: mult.assoc)
  then have ND_lo: "1 - 5 * u \<le> N / D"
    using D0 by (simp add: field_simps)
  have nW': "cmod W = r * (N / D)"
    by (simp add: nW)
  have W_hi: "cmod W \<le> r * (1 + 6 * u)"
    unfolding nW' using ND_hi r0 by (intro mult_left_mono) simp_all
  have W_lo: "r * (1 - 5 * u) \<le> cmod W"
    unfolding nW' using ND_lo r0 by (intro mult_left_mono) simp_all
  define w where "w = u * r"
  have w: "0 \<le> w" "w \<le> r / 64"
    using u r0 mult_right_mono [OF u(2), of r] by (simp_all add: w_def)
  have W_hi': "cmod W \<le> r + 6 * w" and W_lo': "r - 5 * w \<le> cmod W"
    and PW': "cmod (P - W) \<le> 6 * w"
    using W_hi W_lo PW by (simp_all add: w_def algebra_simps)
  have "cmod P \<le> cmod W + cmod (P - W)"
    using norm_triangle_ineq [of W "P - W"] by simp
  then have P_hi: "cmod P \<le> r + 12 * w"
    using W_hi' PW' by linarith
  have "cmod W \<le> cmod P + cmod (P - W)"
    using norm_triangle_ineq [of P "W - P"] by (simp add: norm_minus_commute)
  then have P_lo: "r - 11 * w \<le> cmod P"
    using W_lo' PW' by linarith
  have tol: "r * (1 + 1 / 2 ^ 49) = r + 16 * w" "r * (1 - 1 / 2 ^ 49) = r - 16 * w"
    by (simp_all add: w_def u_def algebra_simps)
  show 1: "distance p \<le> r * (1 + 1 / 2 ^ 49)"
    unfolding tol nP [symmetric] using P_hi w by linarith
  show 2: "r * (1 - 1 / 2 ^ 49) \<le> distance p"
    unfolding tol nP [symmetric] using P_lo w by linarith
  have P0: "0 < cmod P"
    using P_lo w r0 by linarith
  have W0: "0 < cmod W"
    using W_lo' w r0 by linarith
  have Pnz: "P \<noteq> 0" and Wnz: "W \<noteq> 0"
    using P0 W0 by auto
  have "W / of_real (cmod W) = W / of_real (r / D * N)"
    by (simp only: nW)
  also have "\<dots> = (of_real (r / D) * V) / (of_real (r / D) * of_real N)"
    by (simp add: W)
  also have "\<dots> = V / of_real N"
    using r0 D0 by simp
  finally have "W / of_real (cmod W) = V / of_real N" .
  then have "cmod (P / of_real (cmod P) - V / of_real N) \<le> 2 * cmod (P - W) / cmod P"
    using unit_vector_diff [OF Pnz Wnz] by simp
  also have "\<dots> \<le> 2 * (6 * w) / cmod P"
    using PW' P0 by (intro divide_right_mono) simp_all
  also have "\<dots> \<le> 16 * u"
  proof -
    have "12 * w \<le> 16 * u * (r - 11 * w)"
    proof -
      have "u * w \<le> 1 / 64 * w"
        using u(2) w(1) by (rule mult_right_mono)
      then show ?thesis
        using w by (simp add: w_def algebra_simps)
    qed
    also have "\<dots> \<le> 16 * u * cmod P"
      using P_lo u(1) by (intro mult_left_mono) simp_all
    finally show ?thesis
      using P0 by (simp add: field_simps)
  qed
  finally have unit: "cmod (P / of_real (cmod P) - V / of_real N) \<le> 1 / 2 ^ 49"
    by (simp add: u(3))
  have coords: "Re P = point_x p" "Im P = point_y p" "Re V = dx" "Im V = dy"
    by (simp_all add: P_def V_def p)
  have "Re (P / of_real (cmod P) - V / of_real N) = Re P / cmod P - Re V / N"
    by simp
  then have re: "Re (P / of_real (cmod P) - V / of_real N) = point_x p / distance p - dx / N"
    by (simp only: coords nP)
  have "Im (P / of_real (cmod P) - V / of_real N) = Im P / cmod P - Im V / N"
    by simp
  then have im: "Im (P / of_real (cmod P) - V / of_real N) = point_y p / distance p - dy / N"
    by (simp only: coords nP)
  show "\<bar>point_x p / distance p - dx / N\<bar> \<le> 1 / 2 ^ 49"
    unfolding re [symmetric]
    using abs_Re_le_cmod [of "P / of_real (cmod P) - V / of_real N"] unit by linarith
  show "\<bar>point_y p / distance p - dy / N\<bar> \<le> 1 / 2 ^ 49"
    unfolding im [symmetric]
    using abs_Im_le_cmod [of "P / of_real (cmod P) - V / of_real N"] unit by linarith
qed
text \<open>
  Ground evaluations: the steps of the handler on the head pad placed at \<open>(100, 200)\<close>, for
  pointers at \<open>(-300, -170)\<close>, at \<open>(464, 664)\<close> and at the centre.
\<close>

lemma fl_div_1: "fl_div 128 2 = 64"
proof -
  have "rnd64 (128 / 2) = of_int 4503599627370496 * (1 / 2 ^ 46)"
    by (rule rnd64_eqI [where e = "- 46"]) (simp_all add: powr_neg_numeral)
  then show ?thesis
    by (simp add: fl_div_def)
qed

lemma fl_add_2: "fl_add 100 64 = 164"
proof -
  have "rnd64 (100 + 64) = of_int 5770237022568448 * (1 / 2 ^ 45)"
    by (rule rnd64_eqI [where e = "- 45"]) (simp_all add: powr_neg_numeral)
  then show ?thesis
    by (simp add: fl_add_def)
qed

lemma fl_add_3: "fl_add 200 64 = 264"
proof -
  have "rnd64 (200 + 64) = of_int 4644337115725824 * (1 / 2 ^ 44)"
    by (rule rnd64_eqI [where e = "- 44"]) (simp_all add: powr_neg_numeral)
  then show ?thesis
    by (simp add: fl_add_def)
qed

lemma fl_sub_4: "fl_sub (- 300) 164 = - 464"
proof -
  have "rnd64 ((- 300) - 164) = of_int (- 8162774324609024) * (1 / 2 ^ 44)"
    by (rule rnd64_eqI [where e = "- 44"]) (simp_all add: powr_neg_numeral)
  then show ?thesis
    by (simp add: fl_sub_def)
qed

lemma fl_sub_5: "fl_sub (- 170) 264 = - 434"
proof -
  have "rnd64 ((- 170) - 264) = of_int (- 7635008743276544) * (1 / 2 ^ 44)"
    by (rule rnd64_eqI [where e = "- 44"]) (simp_all add: powr_neg_numeral)
  then show ?thesis
    by (simp add: fl_sub_def)
qed

lemma fl_mul_6: "fl_mul (- 464) (- 464) = 215296"
proof -
  have "rnd64 ((- 464) * (- 464)) = of_int 7397514231676928 * (1 / 2 ^ 35)"
    by (rule rnd64_eqI [where e = "- 35"]) (simp_all add: powr_neg_numeral)
  then show ?thesis
    by (simp add: fl_mul_def)
qed

lemma fl_mul_7: "fl_mul (- 434) (- 434) = 188356"
proof -
  have "rnd64 ((- 434) * (- 434)) = of_int 6471862880043008 * (1 / 2 ^ 35)"
    by (rule rnd64_eqI [where e = "- 35"]) (simp_all add: powr_neg_numeral)
  then show ?thesis
    by (simp add: fl_mul_def)
qed

lemma fl_add_8: "fl_add 215296 188356 = 403652"
proof -
  have "rnd64 (215296 + 188356) = of_int 6934688555859968 * (1 / 2 ^ 34)"
    by (rule rnd64_eqI [where e = "- 34"]) (simp_all add: powr_neg_numeral)
  then show ?thesis
    by (simp add: fl_add_def)
qed

lemma fl_sqrt_9: "fl_sqrt 403652 = 5588475713117253 / 8796093022208"
proof -
  have "rnd64 (sqrt 403652) = of_int 5588475713117253 * (1 / 2 ^ 43)"
    by (rule rnd64_sqrt_eqI [where e = "- 43"])
      (simp_all add: powr_neg_numeral power2_eq_square)
  then show ?thesis
    by (simp add: fl_sqrt_def)
qed

lemma fl_div_10: "fl_div (- 464) (5588475713117253 / 8796093022208) = - (1644539105731967 / 2251799813685248)"
proof -
  have "rnd64 ((- 464) / (5588475713117253 / 8796093022208)) = of_int (- 6578156422927868) * (1 / 2 ^ 53)"
    by (rule rnd64_eqI [where e = "- 53"]) (simp_all add: powr_neg_numeral)
  then show ?thesis
    by (simp add: fl_div_def)
qed

lemma fl_div_11: "fl_div (- 434) (5588475713117253 / 8796093022208) = - (3076422292619283 / 4503599627370496)"
proof -
  have "rnd64 ((- 434) / (5588475713117253 / 8796093022208)) = of_int (- 6152844585238566) * (1 / 2 ^ 53)"
    by (rule rnd64_eqI [where e = "- 53"]) (simp_all add: powr_neg_numeral)
  then show ?thesis
    by (simp add: fl_div_def)
qed

lemma fl_mul_12: "fl_mul (- (1644539105731967 / 2251799813685248)) 64 = - (1644539105731967 / 35184372088832)"
proof -
  have "rnd64 ((- (1644539105731967 / 2251799813685248)) * 64) = of_int (- 6578156422927868) * (1 / 2 ^ 47)"
    by (rule rnd64_eqI [where e = "- 47"]) (simp_all add: powr_neg_numeral)
  then show ?thesis
    by (simp add: fl_mul_def)
qed

lemma fl_mul_13: "fl_mul (- (3076422292619283 / 4503599627370496)) 64 = - (3076422292619283 / 70368744177664)"
proof -
  have "rnd64 ((- (3076422292619283 / 4503599627370496)) * 64) = of_int (- 6152844585238566) * (1 / 2 ^ 47)"
    by (rule rnd64_eqI [where e = "- 47"]) (simp_all add: powr_neg_numeral)
  then show ?thesis
    by (simp add: fl_mul_def)
qed

lemma fl_sub_14: "fl_sub 464 164 = 300"
proof -
  have "rnd64 (464 - 164) = of_int 5277655813324800 * (1 / 2 ^ 44)"
    by (rule rnd64_eqI [where e = "- 44"]) (simp_all add: powr_neg_numeral)
  then show ?thesis
    by (simp add: fl_sub_def)
qed

lemma fl_sub_15: "fl_sub 664 264 = 400"
proof -
  have "rnd64 (664 - 264) = of_int 7036874417766400 * (1 / 2 ^ 44)"
    by (rule rnd64_eqI [where e = "- 44"]) (simp_all add: powr_neg_numeral)
  then show ?thesis
    by (simp add: fl_sub_def)
qed

lemma fl_mul_16: "fl_mul 300 300 = 90000"
proof -
  have "rnd64 (300 * 300) = of_int 6184752906240000 * (1 / 2 ^ 36)"
    by (rule rnd64_eqI [where e = "- 36"]) (simp_all add: powr_neg_numeral)
  then show ?thesis
    by (simp add: fl_mul_def)
qed

lemma fl_mul_17: "fl_mul 400 400 = 160000"
proof -
  have "rnd64 (400 * 400) = of_int 5497558138880000 * (1 / 2 ^ 35)"
    by (rule rnd64_eqI [where e = "- 35"]) (simp_all add: powr_neg_numeral)
  then show ?thesis
    by (simp add: fl_mul_def)
qed

lemma fl_add_18: "fl_add 90000 160000 = 250000"
proof -
  have "rnd64 (90000 + 160000) = of_int 8589934592000000 * (1 / 2 ^ 35)"
    by (rule rnd64_eqI [where e = "- 35"]) (simp_all add: powr_neg_numeral)
  then show ?thesis
    by (simp add: fl_add_def)
qed

lemma fl_sqrt_19: "fl_sqrt 250000 = 500"
proof -
  have "rnd64 (sqrt 250000) = of_int 8796093022208000 * (1 / 2 ^ 44)"
    by (rule rnd64_sqrt_eqI [where e = "- 44"])
      (simp_all add: powr_neg_numeral power2_eq_square)
  then show ?thesis
    by (simp add: fl_sqrt_def)
qed

lemma fl_div_20: "fl_div 300 500 = 5404319552844595 / 9007199254740992"
proof -
  have "rnd64 (300 / 500) = of_int 5404319552844595 * (1 / 2 ^ 53)"
    by (rule rnd64_eqI [where e = "- 53"]) (simp_all add: powr_neg_numeral)
  then show ?thesis
    by (simp add: fl_div_def)
qed

lemma fl_div_21: "fl_div 400 500 = 3602879701896397 / 4503599627370496"
proof -
  have "rnd64 (400 / 500) = of_int 7205759403792794 * (1 / 2 ^ 53)"
    by (rule rnd64_eqI [where e = "- 53"]) (simp_all add: powr_neg_numeral)
  then show ?thesis
    by (simp add: fl_div_def)
qed

lemma fl_mul_22: "fl_mul (5404319552844595 / 9007199254740992) 64 = 5404319552844595 / 140737488355328"
proof -
  have "rnd64 ((5404319552844595 / 9007199254740992) * 64) = of_int 5404319552844595 * (1 / 2 ^ 47)"
    by (rule rnd64_eqI [where e = "- 47"]) (simp_all add: powr_neg_numeral)
  then show ?thesis
    by (simp add: fl_mul_def)
qed

lemma fl_mul_23: "fl_mul (3602879701896397 / 4503599627370496) 64 = 3602879701896397 / 70368744177664"
proof -
  have "rnd64 ((3602879701896397 / 4503599627370496) * 64) = of_int 7205759403792794 * (1 / 2 ^ 47)"
    by (rule rnd64_eqI [where e = "- 47"]) (simp_all add: powr_neg_numeral)
  then show ?thesis
    by (simp add: fl_mul_def)
qed

lemma fl_sub_24: "fl_sub 164 164 = 0"
  by (simp add: fl_sub_def rnd64_zero)

lemma fl_sub_25: "fl_sub 264 264 = 0"
  by (simp add: fl_sub_def rnd64_zero)

lemma fl_mul_26: "fl_mul 0 0 = 0"
  by (simp add: fl_mul_def rnd64_zero)

lemma fl_add_27: "fl_add 0 0 = 0"
  by (simp add: fl_add_def rnd64_zero)

lemma fl_sqrt_28: "fl_sqrt 0 = 0"
  by (simp add: fl_sqrt_def rnd64_zero)

text \<open>
  C2 as stated fails.  On the head pad (128 wide, placed at \<open>(100, 200)\<close>) a mouse at
  \<open>(-300, -170)\<close> gives \<open>dx = -464\<close>, \<open>dy = -434\<close> and the computed distance
  \<open>635.3361315083536\<close>; the offset written is
  \<open>(-46.74061261005042, -43.718590243021296)\<close>, whose magnitude exceeds the radius 64.
\<close>

theorem clamping_counterexample:
  "handleInteractionMove True
     (Some \<lparr>rect_left = 100, rect_top = 200, rect_width = 128, rect_height = 128\<rparr>)
     (MouseEvent (- 300) (- 170))
     = SetOffset \<lparr>point_x = - (1644539105731967 / 35184372088832),
                  point_y = - (3076422292619283 / 70368744177664)\<rparr>
   \<and> 64 < distance \<lparr>point_x = - (1644539105731967 / 35184372088832),
                      point_y = - (3076422292619283 / 70368744177664)\<rparr>"
proof -
  have "handleInteractionMove True
     (Some \<lparr>rect_left = 100, rect_top = 200, rect_width = 128, rect_height = 128\<rparr>)
     (MouseEvent (- 300) (- 170))
     = SetOffset \<lparr>point_x = - (1644539105731967 / 35184372088832),
                  point_y = - (3076422292619283 / 70368744177664)\<rparr>"
    by (simp add: handleInteractionMove_def Let_def fl_div_1 fl_add_2 fl_add_3 fl_sub_4
        fl_sub_5 fl_mul_6 fl_mul_7 fl_add_8 fl_sqrt_9 fl_div_10 fl_div_11 fl_mul_12 fl_mul_13)
  moreover have "64 < distance \<lparr>point_x = - (1644539105731967 / 35184372088832),
                      point_y = - (3076422292619283 / 70368744177664)\<rparr>"
    by (simp add: distance_gt_iff power2_eq_square)
  ultimately show ?thesis
    by simp
qed

text \<open>
  C2, as the code has it.  Numbers are binary64 and every operation rounds.  Let the pad be
  dragged and the event carry a pointer position; let the pad be at least \<open>2\<^sup>-\<^sup>2\<^sup>5\<^sup>6\<close> wide
  and no number of the event or the rectangle exceed \<open>2\<^sup>2\<^sup>5\<^sup>6\<close> in absolute value (no
  operation overflows).  Then the handler writes an offset (it neither throws nor divides
  by zero), and with \<open>radius\<close> the computed half width, \<open>(dx, dy)\<close> the computed vector from
  the centre to the pointer, \<open>D\<close> its computed length and \<open>N\<close> its length:
  \<^item> the offset's magnitude is at most \<open>radius \<times> (1 + 2\<^sup>-\<^sup>4\<^sup>9)\<close>;
  \<^item> when \<open>D > radius\<close> the offset is \<open>(dx / D * radius, dy / D * radius)\<close> with every
    operation rounded, its magnitude is at least \<open>radius \<times> (1 - 2\<^sup>-\<^sup>4\<^sup>9)\<close>, and each
    coordinate of its unit vector differs from that of \<open>(dx, dy)\<close> by at most \<open>2\<^sup>-\<^sup>4\<^sup>9\<close>;
  \<^item> when \<open>D \<le> radius\<close> the offset is \<open>(dx, dy)\<close> itself;
  \<^item> a pointer at the computed centre gives the offset \<open>(0, 0)\<close>.
\<close>

theorem clamping_tolerance:
  assumes "client e = Some (clientX, clientY)"
    and "\<bar>clientX\<bar> \<le> 2 ^ 256" and "\<bar>clientY\<bar> \<le> 2 ^ 256"
    and "\<bar>rect_left rect\<bar> \<le> 2 ^ 256" and "\<bar>rect_top rect\<bar> \<le> 2 ^ 256"
    and "\<bar>rect_height rect\<bar> \<le> 2 ^ 256"
    and "1 / 2 ^ 256 \<le> rect_width rect" and "rect_width rect \<le> 2 ^ 256"
    and "dx = fl_sub clientX (fl_add (rect_left rect) (fl_div (rect_width rect) 2))"
    and "dy = fl_sub clientY (fl_add (rect_top rect) (fl_div (rect_height rect) 2))"
    and "radius = fl_div (rect_width rect) 2"
    and "D = fl_sqrt (fl_add (fl_mul dx dx) (fl_mul dy dy))"
    and "N = sqrt (dx\<^sup>2 + dy\<^sup>2)"
  shows "\<exists>p. handleInteractionMove True (Some rect) e = SetOffset p
          \<and> distance p \<le> radius * (1 + 1 / 2 ^ 49)
          \<and> (D > radius \<longrightarrow>
                p = \<lparr>point_x = fl_mul (fl_div dx D) radius,
                     point_y = fl_mul (fl_div dy D) radius\<rparr>
                \<and> radius * (1 - 1 / 2 ^ 49) \<le> distance p
                \<and> \<bar>point_x p / distance p - dx / N\<bar> \<le> 1 / 2 ^ 49
                \<and> \<bar>point_y p / distance p - dy / N\<bar> \<le> 1 / 2 ^ 49)
          \<and> (D \<le> radius \<longrightarrow> p = \<lparr>point_x = dx, point_y = dy\<rparr>)
          \<and> (dx = 0 \<and> dy = 0 \<longrightarrow> p = \<lparr>point_x = 0, point_y = 0\<rparr>)"
proof -
  have body: "handleInteractionMove True (Some rect) e =
      (if D > radius
       then (if D = 0 then SetOffsetNaN
             else SetOffset \<lparr>point_x = fl_mul (fl_div dx D) radius,
                              point_y = fl_mul (fl_div dy D) radius\<rparr>)
       else SetOffset \<lparr>point_x = dx, point_y = dy\<rparr>)"
    unfolding assms(12) unfolding assms(9-11) using assms(1)
    by (simp add: handleInteractionMove_def Let_def)
  have "\<bar>radius - rect_width rect / 2\<bar>
      \<le> 1 / 2 ^ 53 * \<bar>rect_width rect / 2\<bar> + 1 / 2 ^ 1075"
    unfolding assms(11) by (rule fl_div_error)
  then have r: "1 / 2 ^ 500 \<le> radius"
    using assms(7) by simp
  then have r0: "0 < radius"
    by (rule less_le_trans [rotated]) simp
  have tol: "radius \<le> radius * (1 + 1 / 2 ^ 49)"
    using r0 by simp
  show ?thesis
  proof (cases "D > radius")
    case True
    let ?p = "\<lparr>point_x = fl_mul (fl_div dx D) radius,
               point_y = fl_mul (fl_div dy D) radius\<rparr>"
    have call: "handleInteractionMove True (Some rect) e = SetOffset ?p"
      using True r0 by (simp add: body)
    note c = clamped_offset [OF assms(13) assms(12) r True refl [of ?p]]
    have nz: "\<not> (dx = 0 \<and> dy = 0)"
    proof
      assume "dx = 0 \<and> dy = 0"
      then have "D = 0"
        by (simp add: assms(12) fl_mul_def fl_add_def fl_sqrt_def rnd64_zero)
      with True r0 show False
        by simp
    qed
    show ?thesis
      by (intro exI [of _ ?p] conjI impI) (use call c nz True in simp_all)
  next
    case False
    let ?p = "\<lparr>point_x = dx, point_y = dy\<rparr>"
    have call: "handleInteractionMove True (Some rect) e = SetOffset ?p"
      using False by (simp add: body)
    have mag: "distance ?p = N"
      by (simp add: distance_def assms(13))
    have "N \<le> radius * (1 + 1 / 2 ^ 49)"
    proof (cases "1 / 2 ^ 501 \<le> N")
      case True
      with assms(13,12) have "N * (1 - 5 * (1 / 2 ^ 53)) \<le> D"
        by (rule computed_length)
      with False have "N * (1 - 5 * (1 / 2 ^ 53)) \<le> radius"
        by simp
      moreover have "0 \<le> N"
        by (simp add: assms(13))
      ultimately show ?thesis
        by (simp add: algebra_simps)
    next
      case False
      with r tol show ?thesis
        by simp
    qed
    then show ?thesis
      by (intro exI [of _ ?p] conjI impI) (use call mag False in simp_all)
  qed
qed

text \<open>
  The instances, on the head pad (128 wide, placed at \<open>(100, 200)\<close>, computed centre
  \<open>(164, 264)\<close>): a mouse at \<open>(464, 664)\<close> gives \<open>(dx, dy) = (300, 400)\<close> with computed length
  500, and the offset written has a magnitude within \<open>64 \<times> (1 \<plusminus> 2\<^sup>-\<^sup>4\<^sup>9)\<close> and a unit vector
  within \<open>2\<^sup>-\<^sup>4\<^sup>9\<close> of \<open>(0.6, 0.8)\<close>; a touch at the centre gives \<open>(0, 0)\<close>.
\<close>

theorem clamping_tolerance_witness:
  "(\<exists>p. handleInteractionMove True
       (Some \<lparr>rect_left = 100, rect_top = 200, rect_width = 128, rect_height = 128\<rparr>)
       (MouseEvent 464 664) = SetOffset p
     \<and> distance p \<le> 64 * (1 + 1 / 2 ^ 49)
     \<and> 64 * (1 - 1 / 2 ^ 49) \<le> distance p
     \<and> \<bar>point_x p / distance p - 300 / 500\<bar> \<le> 1 / 2 ^ 49
     \<and> \<bar>point_y p / distance p - 400 / 500\<bar> \<le> 1 / 2 ^ 49)
   \<and> handleInteractionMove True
       (Some \<lparr>rect_left = 100, rect_top = 200, rect_width = 128, rect_height = 128\<rparr>)
       (TouchEvent [(164, 264)]) = SetOffset \<lparr>point_x = 0, point_y = 0\<rparr>"
proof -
  let ?rect = "\<lparr>rect_left = 100, rect_top = 200, rect_width = 128, rect_height = 128\<rparr>"
  have N: "(500::real) = sqrt (300\<^sup>2 + 400\<^sup>2)"
    by (rule real_sqrt_unique [symmetric]) simp_all
  have far: "\<exists>p. handleInteractionMove True (Some ?rect) (MouseEvent 464 664) = SetOffset p
          \<and> distance p \<le> 64 * (1 + 1 / 2 ^ 49)
          \<and> ((500::real) > 64 \<longrightarrow>
                p = \<lparr>point_x = fl_mul (fl_div 300 500) 64,
                     point_y = fl_mul (fl_div 400 500) 64\<rparr>
                \<and> 64 * (1 - 1 / 2 ^ 49) \<le> distance p
                \<and> \<bar>point_x p / distance p - 300 / 500\<bar> \<le> 1 / 2 ^ 49
                \<and> \<bar>point_y p / distance p - 400 / 500\<bar> \<le> 1 / 2 ^ 49)
          \<and> ((500::real) \<le> 64 \<longrightarrow> p = \<lparr>point_x = 300, point_y = 400\<rparr>)
          \<and> ((300::real) = 0 \<and> (400::real) = 0 \<longrightarrow> p = \<lparr>point_x = 0, point_y = 0\<rparr>)"
    by (rule clamping_tolerance [where clientX = 464 and clientY = 664])
      (simp_all add: fl_div_1 fl_add_2 fl_add_3 fl_sub_14 fl_sub_15 fl_mul_16 fl_mul_17
        fl_add_18 fl_sqrt_19 N [symmetric])
  have centre: "\<exists>p. handleInteractionMove True (Some ?rect) (TouchEvent [(164, 264)])
            = SetOffset p
          \<and> distance p \<le> 64 * (1 + 1 / 2 ^ 49)
          \<and> ((0::real) > 64 \<longrightarrow>
                p = \<lparr>point_x = fl_mul (fl_div 0 0) 64, point_y = fl_mul (fl_div 0 0) 64\<rparr>
                \<and> 64 * (1 - 1 / 2 ^ 49) \<le> distance p
                \<and> \<bar>point_x p / distance p - 0 / 0\<bar> \<le> 1 / 2 ^ 49
                \<and> \<bar>point_y p / distance p - 0 / 0\<bar> \<le> 1 / 2 ^ 49)
          \<and> ((0::real) \<le> 64 \<longrightarrow> p = \<lparr>point_x = 0, point_y = 0\<rparr>)
          \<and> ((0::real) = 0 \<and> (0::real) = 0 \<longrightarrow> p = \<lparr>point_x = 0, point_y = 0\<rparr>)"
    by (rule clamping_tolerance [where clientX = 164 and clientY = 264])
      (simp_all add: fl_div_1 fl_add_2 fl_add_3 fl_sub_24 fl_sub_25 fl_mul_26 fl_add_27
        fl_sqrt_28)
  from far centre show ?thesis
    by auto
qed

subsection \<open>Reset\<close>

text \<open>
  C10.  \<open>handleReset\<close> sets the gaze, head and body offsets to \<open>(0,0)\<close> and the error to
  \<open>null\<close>, whatever they were, and leaves the original image, the edited image and the
  loading flag as they are.
\<close>

theorem reset_completeness:
  "gazeOffset (handleReset s) = \<lparr>point_x = 0, point_y = 0\<rparr>
   \<and> headOffset (handleReset s) = \<lparr>point_x = 0, point_y = 0\<rparr>
   \<and> bodyOffset (handleReset s) = \<lparr>point_x = 0, point_y = 0\<rparr>
   \<and> error (handleReset s) = None
   \<and> originalImage (handleReset s) = originalImage s
   \<and> editedImage (handleReset s) = editedImage s
   \<and> isLoading (handleReset s) = isLoading s"
  by (simp add: handleReset_def)

text \<open>The instance: a state with an image, an error and three moved handles.\<close>

theorem reset_completeness_witness:
  "gazeOffset (handleReset \<lparr>originalImage = Some ''data:image/png;base64,AAAA'',
      editedImage = Some ''data:image/png;base64,BBBB'', isLoading = True,
      error = Some ''No image was generated. The response may have been blocked.'',
      gazeOffset = \<lparr>point_x = 1, point_y = 2\<rparr>,
      headOffset = \<lparr>point_x = 3, point_y = 4\<rparr>,
      bodyOffset = \<lparr>point_x = 5, point_y = 6\<rparr>\<rparr>) = \<lparr>point_x = 0, point_y = 0\<rparr>
   \<and> error (handleReset \<lparr>originalImage = Some ''data:image/png;base64,AAAA'',
      editedImage = Some ''data:image/png;base64,BBBB'', isLoading = True,
      error = Some ''No image was generated. The response may have been blocked.'',
      gazeOffset = \<lparr>point_x = 1, point_y = 2\<rparr>,
      headOffset = \<lparr>point_x = 3, point_y = 4\<rparr>,
      bodyOffset = \<lparr>point_x = 5, point_y = 6\<rparr>\<rparr>) = None
   \<and> editedImage (handleReset \<lparr>originalImage = Some ''data:image/png;base64,AAAA'',
      editedImage = Some ''data:image/png;base64,BBBB'', isLoading = True,
      error = Some ''No image was generated. The response may have been blocked.'',
      gazeOffset = \<lparr>point_x = 1, point_y = 2\<rparr>,
      headOffset = \<lparr>point_x = 3, point_y = 4\<rparr>,
      bodyOffset = \<lparr>point_x = 5, point_y = 6\<rparr>\<rparr>) = Some ''data:image/png;base64,BBBB''"
  using reset_completeness [of "\<lparr>originalImage = Some ''data:image/png;base64,AAAA'',
      editedImage = Some ''data:image/png;base64,BBBB'', isLoading = True,
      error = Some ''No image was generated. The response may have been blocked.'',
      gazeOffset = \<lparr>point_x = 1, point_y = 2\<rparr>,
      headOffset = \<lparr>point_x = 3, point_y = 4\<rparr>,
      bodyOffset = \<lparr>point_x = 5, point_y = 6\<rparr>\<rparr>"]
  by simp

subsection \<open>Generation without an image\<close>

text \<open>
  C8.  When \<open>originalImage\<close> is falsy (\<open>null\<close> or the empty string), \<open>generateImage\<close>
  sets the error message at once, sends no request, and leaves the three offsets, both
  image slots and the loading flag unchanged.
\<close>

theorem missing_input:
  assumes "\<not> truthy_opt (originalImage s)"
  shows "snd (generateImage_begin API_KEY s) = None
    \<and> error (fst (generateImage_begin API_KEY s)) = Some ''Please upload an image first.''
    \<and> fst (generateImage_begin API_KEY s) = s\<lparr>error := Some ''Please upload an image first.''\<rparr>
    \<and> gazeOffset (fst (generateImage_begin API_KEY s)) = gazeOffset s
    \<and> headOffset (fst (generateImage_begin API_KEY s)) = headOffset s
    \<and> bodyOffset (fst (generateImage_begin API_KEY s)) = bodyOffset s
    \<and> originalImage (fst (generateImage_begin API_KEY s)) = originalImage s
    \<and> editedImage (fst (generateImage_begin API_KEY s)) = editedImage s
    \<and> isLoading (fst (generateImage_begin API_KEY s)) = isLoading s"
  using assms
  by (cases "originalImage s") (simp_all add: generateImage_begin_def truthy_opt_def)

theorem missing_input_witness:
  "\<not> truthy_opt (originalImage initial_state)
   \<and> generateImage_begin (Some ''key'') initial_state
       = (initial_state\<lparr>error := Some ''Please upload an image first.''\<rparr>, None)"
proof -
  have h: "\<not> truthy_opt (originalImage initial_state)"
    by (simp add: initial_state_def truthy_opt_def)
  from missing_input [OF h, of "Some ''key''"] h show ?thesis
    by (simp add: prod_eq_iff)
qed

subsection \<open>Generation while a request is in flight\<close>



end
